theory Spec2Isabelle
  imports Complex_Main "HOL-Library.AList" "HOL-Library.Log_Nat"
begin

section \<open>Cards (types/card.ts)\<close>

datatype Suit = SPADES | HEARTS | DIAMONDS | CLUBS

datatype Rank = TWO | THREE | FOUR | FIVE | SIX | SEVEN | EIGHT | NINE | TEN
  | JACK | QUEEN | KING | ACE

datatype Card = Card (rank: Rank) (suit: Suit)

text \<open>\<^verbatim>\<open>RANK_VALUES\<close>: the numeric strength of a rank.\<close>

fun RANK_VALUES :: "Rank \<Rightarrow> int" where
  "RANK_VALUES TWO = 2"
| "RANK_VALUES THREE = 3"
| "RANK_VALUES FOUR = 4"
| "RANK_VALUES FIVE = 5"
| "RANK_VALUES SIX = 6"
| "RANK_VALUES SEVEN = 7"
| "RANK_VALUES EIGHT = 8"
| "RANK_VALUES NINE = 9"
| "RANK_VALUES TEN = 10"
| "RANK_VALUES JACK = 11"
| "RANK_VALUES QUEEN = 12"
| "RANK_VALUES KING = 13"
| "RANK_VALUES ACE = 14"

text \<open>The enumeration order of \<^verbatim>\<open>Object.entries(RANK_VALUES)\<close>.\<close>

definition allRanks :: "Rank list" where
  "allRanks = [TWO, THREE, FOUR, FIVE, SIX, SEVEN, EIGHT, NINE, TEN, JACK, QUEEN, KING, ACE]"

section \<open>Hand categories (types/hand.ts)\<close>

datatype HandRank = HIGH_CARD | PAIR | TWO_PAIR | THREE_OF_A_KIND | STRAIGHT | FLUSH
  | FULL_HOUSE | FOUR_OF_A_KIND | STRAIGHT_FLUSH | ROYAL_FLUSH

text \<open>The numeric value of the enum member.\<close>

fun handRankNum :: "HandRank \<Rightarrow> int" where
  "handRankNum HIGH_CARD = 0"
| "handRankNum PAIR = 1"
| "handRankNum TWO_PAIR = 2"
| "handRankNum THREE_OF_A_KIND = 3"
| "handRankNum STRAIGHT = 4"
| "handRankNum FLUSH = 5"
| "handRankNum FULL_HOUSE = 6"
| "handRankNum FOUR_OF_A_KIND = 7"
| "handRankNum STRAIGHT_FLUSH = 8"
| "handRankNum ROYAL_FLUSH = 9"

fun HAND_RANK_NAMES :: "HandRank \<Rightarrow> string" where
  "HAND_RANK_NAMES HIGH_CARD = ''High Card''"
| "HAND_RANK_NAMES PAIR = ''Pair''"
| "HAND_RANK_NAMES TWO_PAIR = ''Two Pair''"
| "HAND_RANK_NAMES THREE_OF_A_KIND = ''Three of a Kind''"
| "HAND_RANK_NAMES STRAIGHT = ''Straight''"
| "HAND_RANK_NAMES FLUSH = ''Flush''"
| "HAND_RANK_NAMES FULL_HOUSE = ''Full House''"
| "HAND_RANK_NAMES FOUR_OF_A_KIND = ''Four of a Kind''"
| "HAND_RANK_NAMES STRAIGHT_FLUSH = ''Straight Flush''"
| "HAND_RANK_NAMES ROYAL_FLUSH = ''Royal Flush''"

text \<open>
  \<^verbatim>\<open>EvaluatedHand\<close>. The field \<^verbatim>\<open>rank\<close> of the source is \<open>handRank\<close> here,
  since \<open>rank\<close> already selects the rank of a card. \<^verbatim>\<open>value\<close> is a JavaScript
  number; every value the evaluator builds is an integer below \<open>2^53\<close>, so it is an
  \<open>int\<close>.
\<close>

record EvaluatedHand =
  handRank :: HandRank
  "value" :: int
  description :: string

section \<open>Numbers\<close>

text \<open>
  A JavaScript number is an IEEE 754 double: a finite value, which is a rational number,
  an infinity, or \<^verbatim>\<open>NaN\<close>. The sign of a zero is not kept; it shows only in a
  division by zero, and the one division modelled here divides by a factorial.
\<close>

datatype number = Num rat | PosInfinity | NegInfinity | NaN

text \<open>Rounding to the nearest integer, a tie to the even one.\<close>

definition roundHalfEven :: "rat \<Rightarrow> int" where
  "roundHalfEven m =
     (let f = \<lfloor>m\<rfloor>; d = m - of_int f
      in if d < 1 / 2 then f else if d > 1 / 2 then f + 1 else if even f then f else f + 1)"

text \<open>The exponent \<open>e\<close> with \<open>2^e \<le> x < 2^(e + 1)\<close>, for a positive \<open>x\<close>.\<close>

definition log2Floor :: "rat \<Rightarrow> int" where
  "log2Floor x =
     (let (a, b) = quotient_of x; e = bitlen a - bitlen b
      in if 2 powi e \<le> x then e else e - 1)"

text \<open>
  The double nearest to a rational, as every arithmetic operation of the source rounds
  its exact result: a significand of 53 bits, the least exponent \<open>-1074\<close> of the
  subnormal numbers, and an infinity from \<open>2^1024\<close> on.
\<close>

definition roundToDouble :: "rat \<Rightarrow> number" where
  "roundToDouble x =
     (if x = 0 then Num 0
      else
        let q = max (log2Floor \<bar>x\<bar> - 52) (- 1074);
            y = of_int (roundHalfEven (\<bar>x\<bar> / 2 powi q)) * 2 powi q
        in if y \<ge> 2 ^ 1024 then (if x > 0 then PosInfinity else NegInfinity)
           else Num (if x > 0 then y else - y))"

definition numSign :: "number \<Rightarrow> int" where
  "numSign a =
     (case a of
        Num x \<Rightarrow> (if x > 0 then 1 else if x < 0 then - 1 else 0)
      | PosInfinity \<Rightarrow> 1
      | NegInfinity \<Rightarrow> - 1
      | NaN \<Rightarrow> 0)"

text \<open>\<^verbatim>\<open>a * b\<close>.\<close>

definition numTimes :: "number \<Rightarrow> number \<Rightarrow> number" where
  "numTimes a b =
     (if a = NaN \<or> b = NaN then NaN
      else (case (a, b) of
              (Num x, Num y) \<Rightarrow> roundToDouble (x * y)
            | _ \<Rightarrow> if numSign a * numSign b = 0 then NaN
                   else if numSign a * numSign b > 0 then PosInfinity else NegInfinity))"

text \<open>\<^verbatim>\<open>a / b\<close>; a zero divisor is taken as positive.\<close>

definition numDivide :: "number \<Rightarrow> number \<Rightarrow> number" where
  "numDivide a b =
     (if a = NaN \<or> b = NaN then NaN
      else (case (a, b) of
              (Num x, Num y) \<Rightarrow>
                if y = 0 then (if x = 0 then NaN else if x > 0 then PosInfinity else NegInfinity)
                else roundToDouble (x / y)
            | (Num x, _) \<Rightarrow> Num 0
            | (_, Num y) \<Rightarrow> if numSign a * (if y < 0 then - 1 else 1) > 0 then PosInfinity
                             else NegInfinity
            | _ \<Rightarrow> NaN))"

text \<open>\<^verbatim>\<open>a <= b\<close>, false when either side is \<^verbatim>\<open>NaN\<close>.\<close>

definition numLessEq :: "number \<Rightarrow> number \<Rightarrow> bool" where
  "numLessEq a b =
     (case (a, b) of
        (NaN, _) \<Rightarrow> False
      | (_, NaN) \<Rightarrow> False
      | (Num x, Num y) \<Rightarrow> x \<le> y
      | (NegInfinity, _) \<Rightarrow> True
      | (_, PosInfinity) \<Rightarrow> True
      | _ \<Rightarrow> False)"

section \<open>Errors\<close>

text \<open>
  Every \<^verbatim>\<open>throw\<close> of the modelled code is a constructor; the numbers and cards a
  message prints are its arguments.
\<close>

datatype error =
    NotEnoughCards nat
  | Exactly5Required nat
  | OmahaHoleCards nat
  | OmahaBoardCards nat
  | NoEvaluatorRegistered
  | InvalidCardString string
  | InvalidCardRank string
  | InvalidCardSuit string
  | IncompleteCard nat
  | TooManyHoleCards nat nat
  | DuplicateCardInHand Card
  | BoardCardIsDead Card
  | BoardCardInHand Card
  | DuplicateBoardCard Card
  | DeadCardInHand Card
  | DuplicateDeadCard Card
  | CardInMultipleHands Card
  | TooManyCombinations number
  | CannotDeal nat nat

section \<open>Combinations (utils/card-combinations.ts)\<close>

text \<open>
  \<^verbatim>\<open>generateCombinations(cards, k)\<close>: all \<open>k\<close>-subsequences, those with the
  first card first. The source builds an array, which the memory of the engine and the
  greatest array length bound; the list here has no bound, so a calculation that returns
  here may exhaust the memory there when its lists of cards are long.
\<close>

fun generateCombinations :: "'a list \<Rightarrow> nat \<Rightarrow> 'a list list" where
  "generateCombinations cards 0 = [[]]"
| "generateCombinations [] (Suc k) = []"
| "generateCombinations (first # rest) (Suc k) =
     (if Suc k > length (first # rest) then []
      else map ((#) first) (generateCombinations rest k) @ generateCombinations rest (Suc k))"

section \<open>Hand values (evaluators/hand-value.ts)\<close>

text \<open>
  \<^verbatim>\<open>sortCardsByRank\<close>: a copy sorted by descending rank value.
  \<^verbatim>\<open>Array.prototype.sort\<close> is stable, and so is \<open>sort_key\<close>: cards of equal
  rank keep their order.
\<close>

definition sortCardsByRank :: "Card list \<Rightarrow> Card list" where
  "sortCardsByRank cards = sort_key (\<lambda>c. - RANK_VALUES (rank c)) cards"

text \<open>
  \<^verbatim>\<open>countRanks\<close>: a \<^verbatim>\<open>Map\<close> iterates in insertion order, so it is an
  association list; \<open>AList.update\<close> replaces the value of a key in place and appends a
  new key, as \<^verbatim>\<open>Map.set\<close> does.
\<close>

definition countRanks :: "Card list \<Rightarrow> (Rank \<times> nat) list" where
  "countRanks cards =
     foldl (\<lambda>rankCounts c.
        AList.update (rank c)
          ((case map_of rankCounts (rank c) of None \<Rightarrow> 0 | Some n \<Rightarrow> n) + 1) rankCounts)
       [] cards"

definition countSuits :: "Card list \<Rightarrow> (Suit \<times> Card list) list" where
  "countSuits cards =
     foldl (\<lambda>suitGroups c.
        AList.update (suit c)
          ((case map_of suitGroups (suit c) of None \<Rightarrow> [] | Some cs \<Rightarrow> cs) @ [c])
          suitGroups)
       [] cards"

text \<open>The ranks of the sorted cards without repetition, in their order of appearance
  (\<^verbatim>\<open>uniqueRanks\<close>, with \<^verbatim>\<open>seenRanks\<close> as the accumulator).\<close>

fun uniqueRanks :: "Rank list \<Rightarrow> Card list \<Rightarrow> Rank list" where
  "uniqueRanks seenRanks [] = []"
| "uniqueRanks seenRanks (c # cards) =
     (if rank c \<in> set seenRanks then uniqueRanks seenRanks cards
      else rank c # uniqueRanks (rank c # seenRanks) cards)"

text \<open>\<^verbatim>\<open>Object.entries(RANK_VALUES).find(([, value]) => value === expected)\<close>.\<close>

definition rankOfValue :: "int \<Rightarrow> Rank option" where
  "rankOfValue v = find (\<lambda>r. RANK_VALUES r = v) allRanks"

text \<open>\<^verbatim>\<open>const card = sortedCards.find(c => c.rank === rank); if (card) push\<close>.\<close>

definition findCard :: "Card list \<Rightarrow> Rank \<Rightarrow> Card list" where
  "findCard sortedCards r =
     (case find (\<lambda>c. rank c = r) sortedCards of None \<Rightarrow> [] | Some c \<Rightarrow> [c])"

text \<open>
  The inner loop over \<open>j\<close> of \<^verbatim>\<open>findStraight\<close>: \<open>n\<close> ranks downwards from the
  value \<open>v\<close>; \<open>None\<close> is the \<^verbatim>\<open>break\<close> with \<^verbatim>\<open>isStraight = false\<close>.
\<close>

fun straightRun :: "Card list \<Rightarrow> Rank list \<Rightarrow> int \<Rightarrow> nat \<Rightarrow> Card list option" where
  "straightRun sortedCards seenRanks v 0 = Some []"
| "straightRun sortedCards seenRanks v (Suc n) =
     (case rankOfValue v of
        None \<Rightarrow> None
      | Some r \<Rightarrow>
          if r \<notin> set seenRanks then None
          else (case straightRun sortedCards seenRanks (v - 1) n of
                  None \<Rightarrow> None
                | Some cs \<Rightarrow> Some (findCard sortedCards r @ cs)))"

text \<open>The outer loop over the start ranks \<^verbatim>\<open>uniqueRanks[i]\<close>.\<close>

fun normalStraight :: "Card list \<Rightarrow> Rank list \<Rightarrow> Rank list \<Rightarrow> Card list option" where
  "normalStraight sortedCards seenRanks [] = None"
| "normalStraight sortedCards seenRanks (r # rs) =
     (case straightRun sortedCards seenRanks (RANK_VALUES r) 5 of
        Some straightCards \<Rightarrow>
          if length straightCards = 5 then Some straightCards
          else normalStraight sortedCards seenRanks rs
      | None \<Rightarrow> normalStraight sortedCards seenRanks rs)"

text \<open>
  \<^verbatim>\<open>findStraight\<close>. The start index runs over \<open>0 .. length uniqueRanks - 5\<close>, an
  empty range when there are fewer than five ranks.
\<close>

definition findStraight :: "Card list \<Rightarrow> Card list option" where
  "findStraight cards =
     (if length cards < 5 then None
      else
        let sortedCards = sortCardsByRank cards;
            uniq = uniqueRanks [] sortedCards;
            seenRanks = uniq
        in if ACE \<in> set seenRanks \<and> FIVE \<in> set seenRanks \<and> FOUR \<in> set seenRanks
              \<and> THREE \<in> set seenRanks \<and> TWO \<in> set seenRanks
           then Some (concat (map (findCard sortedCards) [ACE, FIVE, FOUR, THREE, TWO]))
           else normalStraight sortedCards seenRanks (take (length uniq - 4) uniq))"

text \<open>\<^verbatim>\<open>findFlush\<close>: the first suit group, in insertion order, with five cards.\<close>

definition findFlush :: "Card list \<Rightarrow> Card list option" where
  "findFlush cards =
     (if length cards < 5 then None
      else (case find (\<lambda>(s, suitCards). length suitCards \<ge> 5) (countSuits cards) of
              None \<Rightarrow> None
            | Some (s, suitCards) \<Rightarrow> Some (take 5 (sortCardsByRank suitCards))))"

text \<open>
  \<^verbatim>\<open>calculateHandValue\<close>: \<open>handRank * 10000000\<close> plus the cards, sorted again by
  rank, weighted \<open>100^(4 - i)\<close> at position \<open>i\<close>. The exponent is a natural number here:
  the evaluator passes exactly five cards (see \<open>evaluateSingleHand\<close>), for which
  \<open>4 - i\<close> is never negative.
\<close>

fun remainingValue :: "nat \<Rightarrow> Card list \<Rightarrow> int" where
  "remainingValue i [] = 0"
| "remainingValue i (c # cs) = RANK_VALUES (rank c) * 100 ^ (4 - i) + remainingValue (Suc i) cs"

definition calculateHandValue :: "HandRank \<Rightarrow> Card list \<Rightarrow> int" where
  "calculateHandValue hr cards =
     handRankNum hr * 10000000 + remainingValue 0 (sortCardsByRank cards)"

text \<open>The names of \<^verbatim>\<open>generateHandDescription\<close>.\<close>

fun rankNames :: "Rank \<Rightarrow> string" where
  "rankNames TWO = ''Twos''"
| "rankNames THREE = ''Threes''"
| "rankNames FOUR = ''Fours''"
| "rankNames FIVE = ''Fives''"
| "rankNames SIX = ''Sixes''"
| "rankNames SEVEN = ''Sevens''"
| "rankNames EIGHT = ''Eights''"
| "rankNames NINE = ''Nines''"
| "rankNames TEN = ''Tens''"
| "rankNames JACK = ''Jacks''"
| "rankNames QUEEN = ''Queens''"
| "rankNames KING = ''Kings''"
| "rankNames ACE = ''Aces''"

fun singleRankNames :: "Rank \<Rightarrow> string" where
  "singleRankNames TWO = ''Two''"
| "singleRankNames THREE = ''Three''"
| "singleRankNames FOUR = ''Four''"
| "singleRankNames FIVE = ''Five''"
| "singleRankNames SIX = ''Six''"
| "singleRankNames SEVEN = ''Seven''"
| "singleRankNames EIGHT = ''Eight''"
| "singleRankNames NINE = ''Nine''"
| "singleRankNames TEN = ''Ten''"
| "singleRankNames JACK = ''Jack''"
| "singleRankNames QUEEN = ''Queen''"
| "singleRankNames KING = ''King''"
| "singleRankNames ACE = ''Ace''"

text \<open>
  The loops over \<^verbatim>\<open>rankCounts.entries()\<close>: with a \<^verbatim>\<open>break\<close> the first rank of
  the given count is kept (\<open>firstWithCount\<close>), without one the last
  (\<open>lastWithCount\<close>); \<open>None\<close> is the initial \<^verbatim>\<open>null\<close>.
\<close>

definition firstWithCount :: "nat \<Rightarrow> (Rank \<times> nat) list \<Rightarrow> Rank option" where
  "firstWithCount n rankCounts = map_option fst (find (\<lambda>(r, k). k = n) rankCounts)"

definition lastWithCount :: "nat \<Rightarrow> (Rank \<times> nat) list \<Rightarrow> Rank option" where
  "lastWithCount n rankCounts = map_option fst (find (\<lambda>(r, k). k = n) (rev rankCounts))"

text \<open>An array read \<^verbatim>\<open>xs[i]\<close>, \<^verbatim>\<open>undefined\<close> out of range.\<close>

definition nthOpt :: "'a list \<Rightarrow> nat \<Rightarrow> 'a option" where
  "nthOpt xs i = (if i < length xs then Some (xs ! i) else None)"

text \<open>
  \<^verbatim>\<open>generateHandDescription\<close>. Reading \<^verbatim>\<open>sortedCards[0].rank\<close> of an empty
  array throws a \<^verbatim>\<open>TypeError\<close>: the description is \<open>None\<close> then.
\<close>

definition highCardName :: "Card list \<Rightarrow> string option" where
  "highCardName sortedCards =
     (case sortedCards of [] \<Rightarrow> None | highCard # _ \<Rightarrow> Some (singleRankNames (rank highCard)))"

definition generateHandDescription :: "HandRank \<Rightarrow> Card list \<Rightarrow> string option" where
  "generateHandDescription hr cards =
     (let rankCounts = countRanks cards;
          sortedCards = sortCardsByRank cards
      in case hr of
           ROYAL_FLUSH \<Rightarrow> Some ''Royal Flush''
         | STRAIGHT_FLUSH \<Rightarrow>
             map_option (\<lambda>n. ''Straight Flush, '' @ n @ '' high'') (highCardName sortedCards)
         | FOUR_OF_A_KIND \<Rightarrow>
             (case (lastWithCount 4 rankCounts, lastWithCount 1 rankCounts) of
                (Some quadRank, Some kicker) \<Rightarrow>
                  Some (''Four of a Kind, '' @ rankNames quadRank @ '' with ''
                        @ singleRankNames kicker @ '' kicker'')
              | _ \<Rightarrow> Some ''Four of a Kind'')
         | FULL_HOUSE \<Rightarrow>
             (case (lastWithCount 3 rankCounts, lastWithCount 2 rankCounts) of
                (Some tripRank, Some pairRank) \<Rightarrow>
                  Some (''Full House, '' @ rankNames tripRank @ '' full of '' @ rankNames pairRank)
              | _ \<Rightarrow> Some ''Full House'')
         | FLUSH \<Rightarrow> map_option (\<lambda>n. ''Flush, '' @ n @ '' high'') (highCardName sortedCards)
         | STRAIGHT \<Rightarrow> map_option (\<lambda>n. ''Straight, '' @ n @ '' high'') (highCardName sortedCards)
         | THREE_OF_A_KIND \<Rightarrow>
             (case lastWithCount 3 rankCounts of
                Some tripRank \<Rightarrow> Some (''Three of a Kind, '' @ rankNames tripRank)
              | None \<Rightarrow> Some ''Three of a Kind'')
         | TWO_PAIR \<Rightarrow>
             (let pairs = sort_key (\<lambda>r. - RANK_VALUES r)
                            (map fst (filter (\<lambda>(r, k). k = 2) rankCounts))
              in case pairs of
                   p0 # p1 # _ \<Rightarrow> Some (''Two Pair, '' @ rankNames p0 @ '' and '' @ rankNames p1)
                 | _ \<Rightarrow> Some ''Two Pair'')
         | PAIR \<Rightarrow>
             (case lastWithCount 2 rankCounts of
                Some pairRank \<Rightarrow> Some (''Pair of '' @ rankNames pairRank)
              | None \<Rightarrow> Some ''Pair'')
         | HIGH_CARD \<Rightarrow> map_option (\<lambda>n. ''High Card, '' @ n) (highCardName sortedCards))"

section \<open>The evaluators (evaluators/holdem.ts, evaluators/omaha.ts, evaluators/evaluator.ts)\<close>

text \<open>The cards of a rank, in sorted order; \<open>None\<close> is a rank variable still
  \<^verbatim>\<open>null\<close> or \<^verbatim>\<open>undefined\<close>, which no card's rank equals.\<close>

definition cardsOfRank :: "Rank option \<Rightarrow> Card list \<Rightarrow> Card list" where
  "cardsOfRank r sortedCards = filter (\<lambda>c. Some (rank c) = r) sortedCards"

definition cardsNotOfRank :: "Rank option \<Rightarrow> Card list \<Rightarrow> Card list" where
  "cardsNotOfRank r sortedCards = filter (\<lambda>c. Some (rank c) \<noteq> r) sortedCards"

text \<open>\<^verbatim>\<open>sortedCards.indexOf(sortedCards.find(card => card.rank === r))\<close>, for a rank
  that occurs.\<close>

definition indexOfRank :: "Card list \<Rightarrow> Rank \<Rightarrow> nat" where
  "indexOfRank sortedCards r = length (takeWhile (\<lambda>c. rank c \<noteq> r) sortedCards)"

text \<open>
  The category and the \<^verbatim>\<open>valueCards\<close> of
  \<^verbatim>\<open>HoldemEvaluator.evaluateSingleHand\<close>: the tests in the order of the source.
\<close>

definition classify :: "Card list \<Rightarrow> HandRank \<times> Card list" where
  "classify cards =
     (let sortedCards = sortCardsByRank cards;
          rankCounts = countRanks cards;
          counts = map snd rankCounts;
          flush = findFlush cards;
          straight = findStraight cards
      in if flush \<noteq> None \<and> map rank sortedCards = [ACE, KING, QUEEN, JACK, TEN]
         then (ROYAL_FLUSH, sortedCards)
         else if flush \<noteq> None \<and> straight \<noteq> None then (STRAIGHT_FLUSH, the straight)
         else if 4 \<in> set counts then
           (let quadRank = firstWithCount 4 rankCounts
            in (FOUR_OF_A_KIND,
                cardsOfRank quadRank sortedCards @ cardsNotOfRank quadRank sortedCards))
         else if 3 \<in> set counts \<and> 2 \<in> set counts then
           (let tripRank = lastWithCount 3 rankCounts;
                pairRank = lastWithCount 2 rankCounts
            in (FULL_HOUSE, cardsOfRank tripRank sortedCards @ cardsOfRank pairRank sortedCards))
         else if flush \<noteq> None then (FLUSH, the flush)
         else if straight \<noteq> None then (STRAIGHT, the straight)
         else if 3 \<in> set counts then
           (let tripRank = firstWithCount 3 rankCounts
            in (THREE_OF_A_KIND,
                cardsOfRank tripRank sortedCards @ cardsNotOfRank tripRank sortedCards))
         else if length (filter (\<lambda>k. k = 2) counts) = 2 then
           (let pairRanks = sort_key (indexOfRank sortedCards)
                              (map fst (filter (\<lambda>(r, k). k = 2) rankCounts));
                p0 = nthOpt pairRanks 0;
                p1 = nthOpt pairRanks 1
            in (TWO_PAIR,
                cardsOfRank p0 sortedCards @ cardsOfRank p1 sortedCards
                @ filter (\<lambda>c. Some (rank c) \<noteq> p0 \<and> Some (rank c) \<noteq> p1) sortedCards))
         else if 2 \<in> set counts then
           (let pairRank = firstWithCount 2 rankCounts
            in (PAIR, cardsOfRank pairRank sortedCards @ cardsNotOfRank pairRank sortedCards))
         else (HIGH_CARD, sortedCards))"

text \<open>
  \<^verbatim>\<open>HoldemEvaluator.evaluateSingleHand\<close>. A \<^verbatim>\<open>TypeError\<close> of the description
  cannot occur, since \<^verbatim>\<open>valueCards\<close> holds five cards; the model would keep the
  empty description.
\<close>

definition evaluateSingleHand :: "Card list \<Rightarrow> error + EvaluatedHand" where
  "evaluateSingleHand cards =
     (if length cards \<noteq> 5 then Inl (Exactly5Required (length cards))
      else
        let (hr, valueCards) = classify cards
        in Inr \<lparr> handRank = hr,
                 value = calculateHandValue hr valueCards,
                 description = (case generateHandDescription hr valueCards of
                                  None \<Rightarrow> [] | Some d \<Rightarrow> d) \<rparr>)"

text \<open>
  The loop \<^verbatim>\<open>for (const combo of combinations)\<close> that keeps the first hand of the
  greatest value; an exception of the scorer ends it.
\<close>

fun bestHandLoop :: "('a \<Rightarrow> error + EvaluatedHand) \<Rightarrow> EvaluatedHand \<Rightarrow> 'a list
    \<Rightarrow> error + EvaluatedHand" where
  "bestHandLoop score bestHand [] = Inr bestHand"
| "bestHandLoop score bestHand (combo # combos) =
     (case score combo of
        Inl e \<Rightarrow> Inl e
      | Inr evaluated \<Rightarrow>
          bestHandLoop score (if value evaluated > value bestHand then evaluated else bestHand)
            combos)"

definition initialBestHand :: EvaluatedHand where
  "initialBestHand = \<lparr> handRank = HIGH_CARD, value = 0, description = [] \<rparr>"

text \<open>\<^verbatim>\<open>HoldemEvaluator.evaluate\<close>.\<close>

definition holdemEvaluate :: "Card list \<Rightarrow> Card list \<Rightarrow> error + EvaluatedHand" where
  "holdemEvaluate holeCards boardCards =
     (let allCards = holeCards @ boardCards
      in if length allCards < 5 then Inl (NotEnoughCards (length allCards))
         else bestHandLoop evaluateSingleHand initialBestHand (generateCombinations allCards 5))"

text \<open>\<^verbatim>\<open>OmahaEvaluator.evaluate\<close>: the pairs of the two nested loops, in their order,
  each scored by the Hold'em evaluator.\<close>

definition omahaEvaluate :: "Card list \<Rightarrow> Card list \<Rightarrow> error + EvaluatedHand" where
  "omahaEvaluate holeCards boardCards =
     (if length holeCards \<noteq> 4 then Inl (OmahaHoleCards (length holeCards))
      else if length boardCards < 3 then Inl (OmahaBoardCards (length boardCards))
      else bestHandLoop (\<lambda>(holeCombo, boardCombo). holdemEvaluate holeCombo boardCombo)
             initialBestHand
             (List.product (generateCombinations holeCards 2) (generateCombinations boardCards 3)))"

section \<open>Game variants (types/game.ts)\<close>

datatype GameVariant = TEXAS_HOLDEM | OMAHA | OMAHA_HI_LO | SEVEN_CARD_STUD | FIVE_CARD_DRAW

record GameConfig =
  minHoleCards :: nat
  maxHoleCards :: nat
  minBoardCards :: nat
  maxBoardCards :: nat
  cardsUsedInHand :: nat

fun GAME_CONFIGS :: "GameVariant \<Rightarrow> GameConfig" where
  "GAME_CONFIGS TEXAS_HOLDEM = \<lparr> minHoleCards = 2, maxHoleCards = 2, minBoardCards = 0,
     maxBoardCards = 5, cardsUsedInHand = 5 \<rparr>"
| "GAME_CONFIGS OMAHA = \<lparr> minHoleCards = 4, maxHoleCards = 4, minBoardCards = 0,
     maxBoardCards = 5, cardsUsedInHand = 5 \<rparr>"
| "GAME_CONFIGS OMAHA_HI_LO = \<lparr> minHoleCards = 4, maxHoleCards = 4, minBoardCards = 0,
     maxBoardCards = 5, cardsUsedInHand = 5 \<rparr>"
| "GAME_CONFIGS SEVEN_CARD_STUD = \<lparr> minHoleCards = 2, maxHoleCards = 7, minBoardCards = 0,
     maxBoardCards = 0, cardsUsedInHand = 5 \<rparr>"
| "GAME_CONFIGS FIVE_CARD_DRAW = \<lparr> minHoleCards = 5, maxHoleCards = 5, minBoardCards = 0,
     maxBoardCards = 0, cardsUsedInHand = 5 \<rparr>"

text \<open>
  \<^verbatim>\<open>EvaluatorFactory\<close>: the two evaluators that register themselves when their
  modules load; \<^verbatim>\<open>getEvaluator\<close> throws for every other variant.
\<close>

datatype Evaluator = HoldemEvaluator | OmahaEvaluator

fun getEvaluator :: "GameVariant \<Rightarrow> error + Evaluator" where
  "getEvaluator TEXAS_HOLDEM = Inr HoldemEvaluator"
| "getEvaluator OMAHA = Inr OmahaEvaluator"
| "getEvaluator _ = Inl NoEvaluatorRegistered"

fun getVariant :: "Evaluator \<Rightarrow> GameVariant" where
  "getVariant HoldemEvaluator = TEXAS_HOLDEM"
| "getVariant OmahaEvaluator = OMAHA"

fun evaluate :: "Evaluator \<Rightarrow> Card list \<Rightarrow> Card list \<Rightarrow> error + EvaluatedHand" where
  "evaluate HoldemEvaluator holeCards boardCards = holdemEvaluate holeCards boardCards"
| "evaluate OmahaEvaluator holeCards boardCards = omahaEvaluate holeCards boardCards"

section \<open>Parsing cards and hands (models/card.ts, models/hand.ts)\<close>

text \<open>
  A JavaScript string is modelled by an Isabelle \<open>string\<close>, so its characters range
  over 8 bits. \<^verbatim>\<open>toUpperCase\<close> and \<^verbatim>\<open>toLowerCase\<close> are written out for the
  ASCII letters; the image of every other character under the JavaScript functions is,
  as here, no key of \<^verbatim>\<open>rankMap\<close> or \<^verbatim>\<open>suitMap\<close>.
\<close>

definition toUpperCase :: "char \<Rightarrow> char" where
  "toUpperCase ch =
     (let n = (of_char ch :: nat)
      in if of_char CHR ''a'' \<le> n \<and> n \<le> of_char CHR ''z'' then char_of (n - 32) else ch)"

definition toLowerCase :: "char \<Rightarrow> char" where
  "toLowerCase ch =
     (let n = (of_char ch :: nat)
      in if of_char CHR ''A'' \<le> n \<and> n \<le> of_char CHR ''Z'' then char_of (n + 32) else ch)"

definition rankMap :: "char \<Rightarrow> Rank option" where
  "rankMap = map_of [(CHR ''2'', TWO), (CHR ''3'', THREE), (CHR ''4'', FOUR), (CHR ''5'', FIVE),
     (CHR ''6'', SIX), (CHR ''7'', SEVEN), (CHR ''8'', EIGHT), (CHR ''9'', NINE),
     (CHR ''T'', TEN), (CHR ''J'', JACK), (CHR ''Q'', QUEEN), (CHR ''K'', KING),
     (CHR ''A'', ACE)]"

definition suitMap :: "char \<Rightarrow> Suit option" where
  "suitMap = map_of [(CHR ''s'', SPADES), (CHR ''h'', HEARTS), (CHR ''d'', DIAMONDS),
     (CHR ''c'', CLUBS)]"

text \<open>\<^verbatim>\<open>createCard\<close>.\<close>

definition createCard :: "string \<Rightarrow> error + Card" where
  "createCard cardStr =
     (case cardStr of
        [c0, c1] \<Rightarrow>
          (case rankMap (toUpperCase c0) of
             None \<Rightarrow> Inl (InvalidCardRank [toUpperCase c0])
           | Some r \<Rightarrow>
               (case suitMap (toLowerCase c1) of
                  None \<Rightarrow> Inl (InvalidCardSuit [toLowerCase c1])
                | Some s \<Rightarrow> Inr (Card r s)))
      | _ \<Rightarrow> Inl (InvalidCardString cardStr))"

text \<open>\<^verbatim>\<open>createCards\<close>: the loop over the positions \<open>i = 0, 2, 4, ...\<close>; the rest
  of the string from position \<open>i\<close> is the second argument.\<close>

fun createCardsFrom :: "nat \<Rightarrow> string \<Rightarrow> error + Card list" where
  "createCardsFrom i [] = Inr []"
| "createCardsFrom i [c0] = Inl (IncompleteCard i)"
| "createCardsFrom i (c0 # c1 # rest) =
     (case createCard [c0, c1] of
        Inl e \<Rightarrow> Inl e
      | Inr c \<Rightarrow>
          (case createCardsFrom (i + 2) rest of
             Inl e \<Rightarrow> Inl e
           | Inr cs \<Rightarrow> Inr (c # cs)))"

definition createCards :: "string \<Rightarrow> error + Card list" where
  "createCards cardsStr = createCardsFrom 0 cardsStr"

text \<open>\<^verbatim>\<open>areCardsEqual\<close> and \<^verbatim>\<open>isCardInArray\<close>: equality by rank and suit.\<close>

definition areCardsEqual :: "Card \<Rightarrow> Card \<Rightarrow> bool" where
  "areCardsEqual card1 card2 \<longleftrightarrow> rank card1 = rank card2 \<and> suit card1 = suit card2"

definition isCardInArray :: "Card \<Rightarrow> Card list \<Rightarrow> bool" where
  "isCardInArray c cards \<longleftrightarrow> list_ex (\<lambda>c'. areCardsEqual c' c) cards"

text \<open>The duplicate check of \<^verbatim>\<open>validateHand\<close>: the first card whose key
  \<^verbatim>\<open>card.rank + card.suit\<close> is already in \<^verbatim>\<open>cardMap\<close>.\<close>

fun firstRepeated :: "Card list \<Rightarrow> Card list \<Rightarrow> Card option" where
  "firstRepeated cardMap [] = None"
| "firstRepeated cardMap (c # cards) =
     (if c \<in> set cardMap then Some c else firstRepeated (c # cardMap) cards)"

definition validateHand :: "Card list \<Rightarrow> GameVariant \<Rightarrow> error + unit" where
  "validateHand cards variant =
     (let config = GAME_CONFIGS variant
      in if length cards > maxHoleCards config
         then Inl (TooManyHoleCards (length cards) (maxHoleCards config))
         else (case firstRepeated [] cards of
                 Some c \<Rightarrow> Inl (DuplicateCardInHand c)
               | None \<Rightarrow> Inr ()))"

text \<open>\<^verbatim>\<open>createHand\<close>; a \<^verbatim>\<open>Hand\<close> has the one field \<^verbatim>\<open>cards\<close> and is modelled
  by it.\<close>

definition createHand :: "string \<Rightarrow> GameVariant \<Rightarrow> error + Card list" where
  "createHand handStr variant =
     (if handStr = [] then Inr []
      else (case createCards handStr of
              Inl e \<Rightarrow> Inl e
            | Inr cards \<Rightarrow>
                (case validateHand cards variant of
                   Inl e \<Rightarrow> Inl e
                 | Inr _ \<Rightarrow> Inr cards)))"

text \<open>\<^verbatim>\<open>cardsNeededForHand\<close> and \<^verbatim>\<open>cardsNeededForBoard\<close>; the subtraction of
  natural numbers is \<^verbatim>\<open>Math.max(0, ...)\<close>.\<close>

definition cardsNeededForHand :: "Card list \<Rightarrow> GameVariant \<Rightarrow> nat" where
  "cardsNeededForHand handCards variant = maxHoleCards (GAME_CONFIGS variant) - length handCards"

definition cardsNeededForBoard :: "Card list \<Rightarrow> GameVariant \<Rightarrow> nat" where
  "cardsNeededForBoard boardCards variant =
     maxBoardCards (GAME_CONFIGS variant) - length boardCards"

section \<open>Single-hand evaluation (index.ts)\<close>

text \<open>
  \<^verbatim>\<open>PokerEquityCalculator.evaluateHand\<close>, from the fields \<^verbatim>\<open>gameVariant\<close> and
  \<^verbatim>\<open>board.cards\<close> of the calculator and the hand string.
\<close>

definition evaluateHand :: "GameVariant \<Rightarrow> Card list \<Rightarrow> string \<Rightarrow> error + EvaluatedHand" where
  "evaluateHand gameVariant boardCards handStr =
     (case createHand handStr gameVariant of
        Inl e \<Rightarrow> Inl e
      | Inr handCards \<Rightarrow>
          (case getEvaluator gameVariant of
             Inl e \<Rightarrow> Inl e
           | Inr evaluator \<Rightarrow> evaluate evaluator handCards boardCards))"

section \<open>The deck (models/deck.ts)\<close>

text \<open>The 52 cards in the order the constructor of \<^verbatim>\<open>Deck\<close> pushes them.\<close>

definition fullDeck :: "Card list" where
  "fullDeck = concat (map (\<lambda>s. map (\<lambda>r. Card r s) allRanks) [SPADES, HEARTS, DIAMONDS, CLUBS])"

text \<open>\<^verbatim>\<open>removeCards\<close>.\<close>

definition removeCards :: "Card list \<Rightarrow> Card list \<Rightarrow> Card list" where
  "removeCards deck cardsToRemove =
     filter (\<lambda>c. \<not> list_ex (\<lambda>c'. rank c' = rank c \<and> suit c' = suit c) cardsToRemove) deck"

text \<open>
  \<^verbatim>\<open>deal(count)\<close>: \<open>count\<close> times \<^verbatim>\<open>pop()\<close>, so the last card of the deck is
  dealt first. The result is the dealt cards and the deck that is left.
\<close>

definition deal :: "Card list \<Rightarrow> nat \<Rightarrow> error + (Card list \<times> Card list)" where
  "deal deck n =
     (if n > length deck then Inl (CannotDeal n (length deck))
      else Inr (take n (rev deck), take (length deck - n) deck))"

section \<open>Results and options (types/result.ts)\<close>

text \<open>
  \<^verbatim>\<open>PlayerEquity\<close>. The counters are JavaScript numbers; those that only count are
  natural numbers, those that receive fractions are rationals. \<^verbatim>\<open>equity\<close> is
  \<open>None\<close> when the division of the source yields \<^verbatim>\<open>NaN\<close> (zero scenarios). The
  two rank-count objects are maps from the category.
\<close>

record PlayerEquity =
  handIndex :: nat
  equity :: "rat option"
  wins :: nat
  ties :: nat
  winsCount :: nat
  tiesCount :: nat
  handRankCounts :: "HandRank \<Rightarrow> rat option"
  winningHandRankCounts :: "HandRank \<Rightarrow> rat option"

text \<open>\<^verbatim>\<open>EquityResult\<close>, without the elapsed wall time.\<close>

record EquityResult =
  playerResults :: "PlayerEquity list"
  totalHands :: nat
  isExact :: bool

text \<open>
  \<^verbatim>\<open>CalculationOptions\<close>: \<open>None\<close> is a property that is absent. The progress
  callback only receives numbers and is left out, as is the logging to the console.
\<close>

record CalculationOptions =
  iterations :: "nat option"
  forceExhaustive :: "bool option"
  maxExhaustiveCombinations :: "number option"
  accuracyThreshold :: "rat option"

text \<open>The defaults of the constructor, overridden by the properties that are present.\<close>

definition withDefaults :: "CalculationOptions \<Rightarrow> CalculationOptions" where
  "withDefaults opts =
     \<lparr> iterations = (case iterations opts of None \<Rightarrow> Some 10000 | Some n \<Rightarrow> Some n),
       forceExhaustive = (case forceExhaustive opts of None \<Rightarrow> Some False | Some b \<Rightarrow> Some b),
       maxExhaustiveCombinations =
         (case maxExhaustiveCombinations opts of None \<Rightarrow> Some (Num 25000) | Some m \<Rightarrow> Some m),
       accuracyThreshold =
         (case accuracyThreshold opts of None \<Rightarrow> Some (1 / 1000) | Some a \<Rightarrow> Some a) \<rparr>"

section \<open>The base calculator (calculators/base.ts)\<close>

text \<open>
  \<^verbatim>\<open>Hand\<close> and \<^verbatim>\<open>Board\<close> objects are shared between the caller and the
  calculator and are mutated through the field \<^verbatim>\<open>cards\<close>. An object is a
  reference, and the store maps a reference to the cards the object holds.
\<close>

type_synonym ref = nat

type_synonym store = "ref \<Rightarrow> Card list"

text \<open>The fields of \<^verbatim>\<open>EquityCalculator\<close>: \<open>hands\<close> and \<open>board\<close> are the references
  the caller passed.\<close>

record Calculator =
  evaluator :: Evaluator
  hands :: "ref list"
  board :: ref
  deadCards :: "Card list"
  options :: CalculationOptions

text \<open>
  \<^verbatim>\<open>validateHands\<close>, loop by loop; \<open>seenCards\<close> is threaded through. The inner
  loops over the hands throw the same error whichever hand holds the card.
\<close>

fun validateBoardCards :: "Card list \<Rightarrow> Card list list \<Rightarrow> Card list \<Rightarrow> Card list
    \<Rightarrow> error + Card list" where
  "validateBoardCards dead handCards seenCards [] = Inr seenCards"
| "validateBoardCards dead handCards seenCards (c # cs) =
     (if isCardInArray c dead then Inl (BoardCardIsDead c)
      else if list_ex (isCardInArray c) handCards then Inl (BoardCardInHand c)
      else if isCardInArray c seenCards then Inl (DuplicateBoardCard c)
      else validateBoardCards dead handCards (seenCards @ [c]) cs)"

fun validateDeadCards :: "Card list list \<Rightarrow> Card list \<Rightarrow> Card list \<Rightarrow> error + Card list" where
  "validateDeadCards handCards seenCards [] = Inr seenCards"
| "validateDeadCards handCards seenCards (c # cs) =
     (if list_ex (isCardInArray c) handCards then Inl (DeadCardInHand c)
      else if isCardInArray c seenCards then Inl (DuplicateDeadCard c)
      else validateDeadCards handCards (seenCards @ [c]) cs)"

fun validateHandCards :: "Card list \<Rightarrow> Card list \<Rightarrow> error + Card list" where
  "validateHandCards seenCards [] = Inr seenCards"
| "validateHandCards seenCards (c # cs) =
     (if isCardInArray c seenCards then Inl (CardInMultipleHands c)
      else validateHandCards (seenCards @ [c]) cs)"

definition validateHands :: "Card list list \<Rightarrow> Card list \<Rightarrow> Card list \<Rightarrow> error + unit" where
  "validateHands handCards boardCards dead =
     (case validateBoardCards dead handCards [] boardCards of
        Inl e \<Rightarrow> Inl e
      | Inr seen1 \<Rightarrow>
          (case validateDeadCards handCards seen1 dead of
             Inl e \<Rightarrow> Inl e
           | Inr seen2 \<Rightarrow>
               (case validateHandCards seen2 (concat handCards) of
                  Inl e \<Rightarrow> Inl e
                | Inr _ \<Rightarrow> Inr ())))"

text \<open>
  The constructor: it looks the evaluator up, merges the options and validates; it reads
  the \<^verbatim>\<open>cards\<close> of the objects and writes to none of them, so the store is an
  argument only.
\<close>

definition newCalculator :: "store \<Rightarrow> ref list \<Rightarrow> ref \<Rightarrow> Card list \<Rightarrow> GameVariant
    \<Rightarrow> CalculationOptions \<Rightarrow> error + Calculator" where
  "newCalculator st hs b dead gameVariant opts =
     (case getEvaluator gameVariant of
        Inl e \<Rightarrow> Inl e
      | Inr ev \<Rightarrow>
          (case validateHands (map st hs) (st b) dead of
             Inl e \<Rightarrow> Inl e
           | Inr _ \<Rightarrow>
               Inr \<lparr> evaluator = ev, hands = hs, board = b, deadCards = dead,
                     options = withDefaults opts \<rparr>))"

text \<open>\<^verbatim>\<open>getUsedCards\<close> and \<^verbatim>\<open>createDeckWithoutUsedCards\<close>.\<close>

definition getUsedCards :: "Calculator \<Rightarrow> store \<Rightarrow> Card list" where
  "getUsedCards calc st = st (board calc) @ deadCards calc @ concat (map st (hands calc))"

definition createDeckWithoutUsedCards :: "Calculator \<Rightarrow> store \<Rightarrow> Card list" where
  "createDeckWithoutUsedCards calc st = removeCards fullDeck (getUsedCards calc st)"

text \<open>\<^verbatim>\<open>createInitialPlayerEquities\<close>.\<close>

definition initialPlayerEquity :: "nat \<Rightarrow> PlayerEquity" where
  "initialPlayerEquity i =
     \<lparr> handIndex = i, equity = Some 0, wins = 0, ties = 0, winsCount = 0, tiesCount = 0,
       handRankCounts = Map.empty, winningHandRankCounts = Map.empty \<rparr>"

definition createInitialPlayerEquities :: "Calculator \<Rightarrow> PlayerEquity list" where
  "createInitialPlayerEquities calc = map initialPlayerEquity [0 ..< length (hands calc)]"

section \<open>The outcome tally (\<^verbatim>\<open>evaluateAndUpdateEquity\<close> of both calculators)\<close>

text \<open>An exception of one call ends a \<^verbatim>\<open>map\<close> over a list.\<close>

fun mapE :: "('a \<Rightarrow> error + 'b) \<Rightarrow> 'a list \<Rightarrow> error + 'b list" where
  "mapE f [] = Inr []"
| "mapE f (x # xs) =
     (case f x of
        Inl e \<Rightarrow> Inl e
      | Inr y \<Rightarrow> (case mapE f xs of Inl e \<Rightarrow> Inl e | Inr ys \<Rightarrow> Inr (y # ys)))"

definition evaluateHands :: "Calculator \<Rightarrow> store \<Rightarrow> error + EvaluatedHand list" where
  "evaluateHands calc st =
     mapE (\<lambda>h. evaluate (evaluator calc) (st h) (st (board calc))) (hands calc)"

text \<open>\<^verbatim>\<open>if (!counts[k]) counts[k] = 0; counts[k] += x\<close>.\<close>

definition addCount :: "(HandRank \<Rightarrow> rat option) \<Rightarrow> HandRank \<Rightarrow> rat \<Rightarrow> (HandRank \<Rightarrow> rat option)"
  where
  "addCount counts k x = counts(k \<mapsto> (case counts k of None \<Rightarrow> 0 | Some n \<Rightarrow> n) + x)"

text \<open>
  The loop over the evaluated hands: player \<open>i\<close>'s category count goes up, and the
  greatest value so far with the players that reach it is kept. The list of results is
  as long as the list of hands, so every index is in range.
\<close>

fun tallyLoop :: "EvaluatedHand list \<Rightarrow> nat \<Rightarrow> int \<Rightarrow> nat list \<Rightarrow> PlayerEquity list
    \<Rightarrow> nat list \<times> PlayerEquity list" where
  "tallyLoop [] i bestHandValue winners prs = (winners, prs)"
| "tallyLoop (e # es) i bestHandValue winners prs =
     (let prs' = prs[i := (prs ! i)\<lparr> handRankCounts :=
                   addCount (handRankCounts (prs ! i)) (handRank e) 1 \<rparr>]
      in if value e > bestHandValue then tallyLoop es (i + 1) (value e) [i] prs'
         else if value e = bestHandValue then tallyLoop es (i + 1) bestHandValue (winners @ [i]) prs'
         else tallyLoop es (i + 1) bestHandValue winners prs')"

text \<open>
  The update of the win and tie counters. The exhaustive calculator counts in
  \<^verbatim>\<open>winsCount\<close> and \<^verbatim>\<open>tiesCount\<close>, the Monte Carlo calculator in \<^verbatim>\<open>wins\<close>
  and \<^verbatim>\<open>ties\<close>: the two increments are parameters.
\<close>

definition updateWinners :: "(PlayerEquity \<Rightarrow> PlayerEquity) \<Rightarrow> (PlayerEquity \<Rightarrow> PlayerEquity)
    \<Rightarrow> EvaluatedHand list \<Rightarrow> nat list \<Rightarrow> PlayerEquity list \<Rightarrow> PlayerEquity list" where
  "updateWinners incWin incTie evaluatedHands winners prs =
     (case winners of
        [w] \<Rightarrow>
          (let p = incWin (prs ! w)
           in prs[w := p\<lparr> winningHandRankCounts :=
                  addCount (winningHandRankCounts p) (handRank (evaluatedHands ! w)) 1 \<rparr>])
      | _ \<Rightarrow>
          foldl (\<lambda>prs w.
              let p = incTie (prs ! w)
              in prs[w := p\<lparr> winningHandRankCounts :=
                     addCount (winningHandRankCounts p) (handRank (evaluatedHands ! w))
                       (1 / of_nat (length winners)) \<rparr>])
            prs winners)"

definition tally :: "(PlayerEquity \<Rightarrow> PlayerEquity) \<Rightarrow> (PlayerEquity \<Rightarrow> PlayerEquity)
    \<Rightarrow> EvaluatedHand list \<Rightarrow> PlayerEquity list \<Rightarrow> PlayerEquity list" where
  "tally incWin incTie evaluatedHands prs =
     (let (winners, prs') = tallyLoop evaluatedHands 0 (- 1) [] prs
      in updateWinners incWin incTie evaluatedHands winners prs')"

section \<open>The exhaustive calculator (calculators/exhaustive.ts)\<close>

text \<open>
  The state a calculation threads through its calls: the store, the tallies, and, as an
  observation that no step reads, the cards of every hand and of the board at each call
  of \<^verbatim>\<open>evaluateAndUpdateEquity\<close>.
\<close>

record CalcState =
  store :: store
  results :: "PlayerEquity list"
  evaluatedScenarios :: "(Card list list \<times> Card list) list"

text \<open>\<^verbatim>\<open>factorial\<close>: every product is rounded.\<close>

fun factorial :: "nat \<Rightarrow> number" where
  "factorial n = (if n \<le> 1 then Num 1 else numTimes (Num (of_nat n)) (factorial (n - 1)))"

declare factorial.simps [simp del]

text \<open>The loop \<^verbatim>\<open>totalCombinations *= remainingCards; remainingCards--\<close>; the
  count of remaining cards is an integer, the product is rounded at every step.\<close>

fun dealProduct :: "nat \<Rightarrow> number \<Rightarrow> int \<Rightarrow> number" where
  "dealProduct 0 totalCombinations remainingCards = totalCombinations"
| "dealProduct (Suc n) totalCombinations remainingCards =
     dealProduct n (numTimes totalCombinations (Num (of_int remainingCards)))
       (remainingCards - 1)"

text \<open>The two counts of \<^verbatim>\<open>estimateCombinations\<close>.\<close>

definition remainingCardCount :: "Calculator \<Rightarrow> store \<Rightarrow> int" where
  "remainingCardCount calc st = 52 - int (length (getUsedCards calc st))"

definition totalCardsToDeal :: "Calculator \<Rightarrow> store \<Rightarrow> nat" where
  "totalCardsToDeal calc st =
     (let gameVariant = getVariant (evaluator calc)
      in sum_list (map (\<lambda>h. cardsNeededForHand (st h) gameVariant) (hands calc))
         + cardsNeededForBoard (st (board calc)) gameVariant)"

text \<open>
  \<^verbatim>\<open>estimateCombinations\<close>, its component \<^verbatim>\<open>totalCombinations\<close> (the other one
  is not used): the product and the quotient in double precision, as the source computes
  them.
\<close>

definition estimateCombinations :: "Calculator \<Rightarrow> store \<Rightarrow> number" where
  "estimateCombinations calc st =
     (if totalCardsToDeal calc st = 0 then Num 1
      else numDivide (dealProduct (totalCardsToDeal calc st) (Num 1) (remainingCardCount calc st))
             (factorial (totalCardsToDeal calc st)))"

text \<open>\<^verbatim>\<open>this.options.maxExhaustiveCombinations || 25000\<close>: an absent property, the
  number 0 and \<^verbatim>\<open>NaN\<close> all give 25000.\<close>

definition effectiveMax :: "CalculationOptions \<Rightarrow> number" where
  "effectiveMax opts =
     (case maxExhaustiveCombinations opts of
        None \<Rightarrow> Num 25000
      | Some m \<Rightarrow> if m = Num 0 \<or> m = NaN then Num 25000 else m)"

definition shouldUseExhaustive :: "Calculator \<Rightarrow> store \<Rightarrow> bool" where
  "shouldUseExhaustive calc st \<longleftrightarrow>
     forceExhaustive (options calc) = Some True
     \<or> numLessEq (estimateCombinations calc st) (effectiveMax (options calc))"

text \<open>\<^verbatim>\<open>evaluateAndUpdateEquity\<close> of the exhaustive calculator.\<close>

definition evaluateAndUpdateEquity :: "Calculator \<Rightarrow> CalcState \<Rightarrow> error + CalcState" where
  "evaluateAndUpdateEquity calc s =
     (case evaluateHands calc (store s) of
        Inl e \<Rightarrow> Inl e
      | Inr evaluatedHands \<Rightarrow>
          Inr (s\<lparr> results :=
                    tally (\<lambda>p. p\<lparr> winsCount := winsCount p + 1 \<rparr>)
                          (\<lambda>p. p\<lparr> tiesCount := tiesCount p + 1 \<rparr>)
                          evaluatedHands (results s),
                  evaluatedScenarios :=
                    evaluatedScenarios s
                    @ [(map (store s) (hands calc), store s (board calc))] \<rparr>))"

text \<open>
  \<^verbatim>\<open>applyCompletions\<close>. The "original" hands and board are copies of what the
  objects hold at the moment of the call; each incomplete hand and the board are then
  set to their copy followed by the completion.
\<close>

fun applyHandCompletions :: "ref list \<Rightarrow> Card list list \<Rightarrow> (nat \<times> nat) list
    \<Rightarrow> Card list list \<Rightarrow> store \<Rightarrow> store" where
  "applyHandCompletions hs originalHands [] handCompletions st = st"
| "applyHandCompletions hs originalHands ((hIndex, cardsNeeded) # incompleteHands)
       handCompletions st =
     applyHandCompletions hs originalHands incompleteHands (tl handCompletions)
       (st(hs ! hIndex := originalHands ! hIndex @ hd handCompletions))"

definition applyCompletions :: "Calculator \<Rightarrow> (nat \<times> nat) list \<Rightarrow> Card list list \<Rightarrow> Card list
    \<Rightarrow> store \<Rightarrow> store" where
  "applyCompletions calc incompleteHands handCompletions boardCompletion st =
     (let originalHands = map st (hands calc);
          originalBoard = st (board calc);
          st' = applyHandCompletions (hands calc) originalHands incompleteHands handCompletions st
      in st'(board calc := originalBoard @ boardCompletion))"

text \<open>The conflict test of \<^verbatim>\<open>evaluateAllCombinations\<close>: some card of the completion
  is in a completion assigned to one of the hands before \<open>handIndex\<close>.\<close>

definition hasConflict :: "nat \<Rightarrow> Card list list \<Rightarrow> Card list \<Rightarrow> bool" where
  "hasConflict hIndex currentHandCompletions completion \<longleftrightarrow>
     list_ex (\<lambda>previousCompletion.
        list_ex (\<lambda>c. list_ex (\<lambda>pc. rank pc = rank c \<and> suit pc = suit c) previousCompletion)
          completion)
       (take hIndex currentHandCompletions)"

text \<open>The loop over the board completions, once every incomplete hand has one.\<close>

fun evaluateBoardCompletions :: "Calculator \<Rightarrow> (nat \<times> nat) list \<Rightarrow> Card list list
    \<Rightarrow> Card list list \<Rightarrow> nat \<Rightarrow> CalcState \<Rightarrow> error + (nat \<times> CalcState)" where
  "evaluateBoardCompletions calc incompleteHands currentHandCompletions [] count s =
     Inr (count, s)"
| "evaluateBoardCompletions calc incompleteHands currentHandCompletions
       (boardCompletion # boardCompletions) count s =
     (case evaluateAndUpdateEquity calc
             (s\<lparr> store := applyCompletions calc incompleteHands currentHandCompletions
                             boardCompletion (store s) \<rparr>) of
        Inl e \<Rightarrow> Inl e
      | Inr s' \<Rightarrow>
          evaluateBoardCompletions calc incompleteHands currentHandCompletions
            boardCompletions (count + 1) s')"

text \<open>
  \<^verbatim>\<open>evaluateAllCombinations\<close>, with the loop over the completions of the current
  hand as \<open>tryCompletions\<close>. \<^verbatim>\<open>currentHandCompletions[handIndex] = completion\<close>
  writes an entry that only the calls below read, so the array is passed down.
\<close>

function evaluateAllCombinations :: "Calculator \<Rightarrow> nat \<Rightarrow> (nat \<times> nat) list
      \<Rightarrow> Card list list list \<Rightarrow> Card list list \<Rightarrow> Card list list \<Rightarrow> CalcState
      \<Rightarrow> error + (nat \<times> CalcState)"
  and tryCompletions :: "Calculator \<Rightarrow> nat \<Rightarrow> (nat \<times> nat) list
      \<Rightarrow> Card list list list \<Rightarrow> Card list list \<Rightarrow> Card list list \<Rightarrow> Card list list \<Rightarrow> nat
      \<Rightarrow> CalcState \<Rightarrow> error + (nat \<times> CalcState)" where
  "evaluateAllCombinations calc hIndex incompleteHands handCompletions boardCompletions
       currentHandCompletions s =
     (if hIndex \<ge> length incompleteHands
      then evaluateBoardCompletions calc incompleteHands currentHandCompletions
             boardCompletions 0 s
      else tryCompletions calc hIndex incompleteHands handCompletions boardCompletions
             currentHandCompletions (handCompletions ! hIndex) 0 s)"
| "tryCompletions calc hIndex incompleteHands handCompletions boardCompletions
       currentHandCompletions [] totalCount s = Inr (totalCount, s)"
| "tryCompletions calc hIndex incompleteHands handCompletions boardCompletions
       currentHandCompletions (completion # completions) totalCount s =
     (if hasConflict hIndex currentHandCompletions completion
      then tryCompletions calc hIndex incompleteHands handCompletions boardCompletions
             currentHandCompletions completions totalCount s
      else (case evaluateAllCombinations calc (hIndex + 1) incompleteHands handCompletions
                   boardCompletions (currentHandCompletions[hIndex := completion]) s of
              Inl e \<Rightarrow> Inl e
            | Inr (count, s') \<Rightarrow>
                tryCompletions calc hIndex incompleteHands handCompletions boardCompletions
                  (currentHandCompletions[hIndex := completion]) completions
                  (totalCount + count) s'))"
  by pat_completeness auto
termination
  by (relation "inv_image (less_than <*lex*> less_than)
        (\<lambda>x. case x of
           Inl (calc, hIndex, incompleteHands, rest) \<Rightarrow>
             (Suc (length incompleteHands) - hIndex, 0)
         | Inr (calc, hIndex, incompleteHands, hcs, bcs, cur, completions, rest) \<Rightarrow>
             (length incompleteHands - hIndex, Suc (length completions)))")
     auto

declare evaluateAllCombinations.simps [simp del]

text \<open>The final equity of a player: \<^verbatim>\<open>(winsCount + tiesCount / 2) / totalHands\<close>,
  \<^verbatim>\<open>NaN\<close> when there was no scenario.\<close>

definition finalEquity :: "nat \<Rightarrow> PlayerEquity \<Rightarrow> PlayerEquity" where
  "finalEquity n p =
     p\<lparr> equity := (if n = 0 then None
                    else Some ((rat_of_nat (winsCount p) + rat_of_nat (tiesCount p) / 2)
                               / rat_of_nat n)) \<rparr>"

text \<open>
  The parts of \<^verbatim>\<open>ExhaustiveCalculator.calculate\<close>: the incomplete hands with the
  number of cards each needs, the completions of each, and the completions of the board.
\<close>

definition incompleteHandsOf :: "Calculator \<Rightarrow> store \<Rightarrow> (nat \<times> nat) list" where
  "incompleteHandsOf calc st =
     filter (\<lambda>(hIndex, cardsNeeded). cardsNeeded > 0)
       (map (\<lambda>hIndex. (hIndex, cardsNeededForHand (st (hands calc ! hIndex))
                                 (getVariant (evaluator calc))))
          [0 ..< length (hands calc)])"

definition handCompletionsOf :: "Calculator \<Rightarrow> store \<Rightarrow> Card list list list" where
  "handCompletionsOf calc st =
     map (\<lambda>(hIndex, cardsNeeded).
         generateCombinations
           (filter (\<lambda>c. \<not> list_ex (\<lambda>hc. rank hc = rank c \<and> suit hc = suit c)
                              (st (hands calc ! hIndex)))
              (createDeckWithoutUsedCards calc st))
           cardsNeeded)
       (incompleteHandsOf calc st)"

definition boardCompletionsOf :: "Calculator \<Rightarrow> store \<Rightarrow> Card list list" where
  "boardCompletionsOf calc st =
     (let boardCardsNeeded = cardsNeededForBoard (st (board calc)) (getVariant (evaluator calc))
      in if boardCardsNeeded > 0
         then generateCombinations (createDeckWithoutUsedCards calc st) boardCardsNeeded
         else [[]])"

text \<open>The branch of \<^verbatim>\<open>calculate\<close> that evaluates: once when nothing is missing,
  over all combinations otherwise. It returns \<^verbatim>\<open>totalHands\<close> and the state.\<close>

definition evaluateScenarios :: "Calculator \<Rightarrow> store \<Rightarrow> error + (nat \<times> CalcState)" where
  "evaluateScenarios calc st =
     (let s0 = \<lparr> store = st, results = createInitialPlayerEquities calc,
                evaluatedScenarios = [] \<rparr>;
          incompleteHands = incompleteHandsOf calc st;
          boardCardsNeeded = cardsNeededForBoard (st (board calc)) (getVariant (evaluator calc))
      in if incompleteHands = [] \<and> boardCardsNeeded = 0
         then (case evaluateAndUpdateEquity calc s0 of
                 Inl e \<Rightarrow> Inl e
               | Inr s \<Rightarrow> Inr (1, s))
         else evaluateAllCombinations calc 0 incompleteHands (handCompletionsOf calc st)
                (boardCompletionsOf calc st) (map (\<lambda>_. []) incompleteHands) s0)"

text \<open>
  \<^verbatim>\<open>ExhaustiveCalculator.calculate\<close>. It returns the result with the store the
  calculation leaves behind and the scenarios it evaluated.
\<close>

definition calculate :: "Calculator \<Rightarrow> store
    \<Rightarrow> error + (EquityResult \<times> store \<times> (Card list list \<times> Card list) list)" where
  "calculate calc st =
     (if \<not> shouldUseExhaustive calc st
      then Inl (TooManyCombinations (estimateCombinations calc st))
      else (case evaluateScenarios calc st of
              Inl e \<Rightarrow> Inl e
            | Inr (totalCount, s) \<Rightarrow>
                Inr (\<lparr> playerResults = map (finalEquity totalCount) (results s),
                        totalHands = totalCount, isExact = True \<rparr>,
                     store s, evaluatedScenarios s)))"

section \<open>The Monte Carlo calculator (calculators/monte-carlo.ts)\<close>

text \<open>
  The Monte Carlo calculator assigns new objects to its fields \<^verbatim>\<open>hands\<close> and
  \<^verbatim>\<open>board\<close>, so the calculator itself is part of the state, together with the
  next unused reference, from which the copies of an iteration are allocated.
\<close>

record MCState =
  mcStore :: store
  nextRef :: ref
  mcCalc :: Calculator
  mcResults :: "PlayerEquity list"

text \<open>\<^verbatim>\<open>evaluateAndUpdateEquity\<close> of the Monte Carlo calculator.\<close>

definition mcEvaluateAndUpdateEquity :: "MCState \<Rightarrow> error + MCState" where
  "mcEvaluateAndUpdateEquity s =
     (case evaluateHands (mcCalc s) (mcStore s) of
        Inl e \<Rightarrow> Inl e
      | Inr evaluatedHands \<Rightarrow>
          Inr (s\<lparr> mcResults :=
                    tally (\<lambda>p. p\<lparr> wins := wins p + 1 \<rparr>) (\<lambda>p. p\<lparr> ties := ties p + 1 \<rparr>)
                          evaluatedHands (mcResults s) \<rparr>))"

text \<open>
  The copies \<^verbatim>\<open>originalHands\<close> and \<^verbatim>\<open>originalBoard\<close>: new objects that hold
  the cards of the current ones.
\<close>

fun copyObjects :: "ref list \<Rightarrow> ref \<Rightarrow> store \<Rightarrow> store" where
  "copyObjects [] r st = st"
| "copyObjects (h # hs) r st = copyObjects hs (r + 1) (st(r := st h))"

text \<open>
  The loop that completes the hands: \<open>hs\<close> are the objects \<^verbatim>\<open>this.hands[j]\<close>,
  \<open>os\<close> their copies \<^verbatim>\<open>originalHands[j]\<close>. The cards needed are read from the
  object as it is when its turn comes.
\<close>

fun dealHands :: "GameVariant \<Rightarrow> ref list \<Rightarrow> ref list \<Rightarrow> Card list \<Rightarrow> store
    \<Rightarrow> error + (Card list \<times> store)" where
  "dealHands gameVariant (h # hs) (orig # os) deck st =
     (let cardsNeeded = cardsNeededForHand (st h) gameVariant
      in if cardsNeeded > 0
         then (case deal deck cardsNeeded of
                 Inl e \<Rightarrow> Inl e
               | Inr (newCards, deck') \<Rightarrow>
                   dealHands gameVariant hs os deck' (st(h := st orig @ newCards)))
         else dealHands gameVariant hs os deck st)"
| "dealHands gameVariant _ _ deck st = Inr (deck, st)"

text \<open>
  One iteration of the loop of \<^verbatim>\<open>runSimulationBatch\<close>. \<open>shuffle\<close> is the
  permutation that \<^verbatim>\<open>deck.shuffle()\<close> draws in this iteration.
\<close>

definition simulateOnce :: "(Card list \<Rightarrow> Card list) \<Rightarrow> MCState \<Rightarrow> error + MCState" where
  "simulateOnce shuffle s =
     (let calc = mcCalc s;
          gameVariant = getVariant (evaluator calc);
          n = length (hands calc);
          originalHands = map (\<lambda>j. nextRef s + j) [0 ..< n];
          originalBoard = nextRef s + n;
          st0 = copyObjects (hands calc @ [board calc]) (nextRef s) (mcStore s);
          deck = shuffle (createDeckWithoutUsedCards calc st0)
      in case dealHands gameVariant (hands calc) originalHands deck st0 of
           Inl e \<Rightarrow> Inl e
         | Inr (deck1, st1) \<Rightarrow>
             (let boardCardsNeeded = cardsNeededForBoard (st1 (board calc)) gameVariant
              in case (if boardCardsNeeded > 0
                       then (case deal deck1 boardCardsNeeded of
                               Inl e \<Rightarrow> Inl e
                             | Inr (newBoardCards, deck2) \<Rightarrow>
                                 Inr (st1(board calc := st1 originalBoard @ newBoardCards)))
                       else Inr st1) of
                   Inl e \<Rightarrow> Inl e
                 | Inr st2 \<Rightarrow>
                     (case mcEvaluateAndUpdateEquity (s\<lparr> mcStore := st2, nextRef := nextRef s + n + 1 \<rparr>) of
                        Inl e \<Rightarrow> Inl e
                      | Inr s' \<Rightarrow>
                          Inr (s'\<lparr> mcCalc := calc\<lparr> hands := originalHands,
                                                    board := originalBoard \<rparr> \<rparr>))))"

text \<open>\<^verbatim>\<open>runSimulationBatch\<close>: \<open>rng k\<close> is the shuffle of the \<open>k\<close>-th iteration of
  the whole calculation, \<open>k\<close> the number of the first iteration of the batch.\<close>

fun runSimulationBatch :: "(nat \<Rightarrow> Card list \<Rightarrow> Card list) \<Rightarrow> nat \<Rightarrow> nat \<Rightarrow> MCState
    \<Rightarrow> error + MCState" where
  "runSimulationBatch rng 0 k s = Inr s"
| "runSimulationBatch rng (Suc n) k s =
     (case simulateOnce (rng k) s of
        Inl e \<Rightarrow> Inl e
      | Inr s' \<Rightarrow> runSimulationBatch rng n (k + 1) s')"

text \<open>
  The convergence test over the last ten snapshots, and the rolling window. The
  equities are doubles in the source and exact rationals here.
\<close>

definition hasConverged :: "rat \<Rightarrow> rat list \<Rightarrow> rat list list \<Rightarrow> bool" where
  "hasConverged threshold currentEquities previousEquities \<longleftrightarrow>
     list_all (\<lambda>previous.
        list_all (\<lambda>(eq, previousEquity). \<not> abs (eq - previousEquity) > threshold)
          (zip currentEquities previous))
       (take 10 (rev previousEquities))"

definition pushEquities :: "rat list list \<Rightarrow> rat list \<Rightarrow> rat list list" where
  "pushEquities previousEquities currentEquities =
     (let pushed = previousEquities @ [currentEquities]
      in if length pushed > 10 then tl pushed else pushed)"

definition runningEquity :: "nat \<Rightarrow> PlayerEquity \<Rightarrow> rat" where
  "runningEquity iterationsCompleted p =
     (rat_of_nat (wins p) + rat_of_nat (ties p) / 2) / rat_of_nat iterationsCompleted"

text \<open>The \<^verbatim>\<open>while\<close> loop of \<^verbatim>\<open>MonteCarloCalculator.calculate\<close>; it returns the
  number of iterations completed.\<close>

function mcLoop :: "(nat \<Rightarrow> Card list \<Rightarrow> Card list) \<Rightarrow> nat \<Rightarrow> nat \<Rightarrow> rat list list \<Rightarrow> MCState
    \<Rightarrow> error + (nat \<times> MCState)" where
  "mcLoop rng maxIterations iterationsCompleted previousEquities s =
     (if iterationsCompleted < maxIterations then
        (let batchesToRun = min 1000 (maxIterations - iterationsCompleted)
         in case runSimulationBatch rng batchesToRun iterationsCompleted s of
              Inl e \<Rightarrow> Inl e
            | Inr s' \<Rightarrow>
                (let completed = iterationsCompleted + batchesToRun;
                     currentEquities = map (runningEquity completed) (mcResults s')
                 in if completed > 10 * 1000
                       \<and> (case accuracyThreshold (options (mcCalc s')) of
                             None \<Rightarrow> False
                           | Some a \<Rightarrow> a \<noteq> 0
                               \<and> length previousEquities \<ge> 10
                               \<and> hasConverged a currentEquities previousEquities)
                    then Inr (completed, s')
                    else mcLoop rng maxIterations completed
                           (pushEquities previousEquities currentEquities) s'))
      else Inr (iterationsCompleted, s))"
  by pat_completeness auto
termination
  by (relation "measure (\<lambda>(rng, maxIterations, iterationsCompleted, rest).
        maxIterations - iterationsCompleted)") auto

declare mcLoop.simps [simp del]

text \<open>
  \<^verbatim>\<open>MonteCarloCalculator.calculate\<close>, with the store it leaves behind. \<open>fresh\<close> is
  a reference above those of every object that exists before the call.
\<close>

definition mcCalculate :: "(nat \<Rightarrow> Card list \<Rightarrow> Card list) \<Rightarrow> Calculator \<Rightarrow> store \<Rightarrow> ref
    \<Rightarrow> error + (EquityResult \<times> store)" where
  "mcCalculate rng calc st fresh =
     (let maxIterations = (case iterations (options calc) of
                             None \<Rightarrow> 100000
                           | Some n \<Rightarrow> if n = 0 then 100000 else n)
      in case mcLoop rng maxIterations 0 []
                \<lparr> mcStore = st, nextRef = fresh, mcCalc = calc,
                  mcResults = createInitialPlayerEquities calc \<rparr> of
           Inl e \<Rightarrow> Inl e
         | Inr (iterationsCompleted, s) \<Rightarrow>
             Inr (\<lparr> playerResults =
                      map (\<lambda>p. p\<lparr> equity := Some (runningEquity iterationsCompleted p) \<rparr>)
                        (mcResults s),
                    totalHands = iterationsCompleted, isExact = False \<rparr>,
                  mcStore s))"

section \<open>Reading an error\<close>

text \<open>The card that the message of a composition error of \<^verbatim>\<open>validateHands\<close> names.\<close>

fun compositionErrorCard :: "error \<Rightarrow> Card option" where
  "compositionErrorCard (BoardCardIsDead c) = Some c"
| "compositionErrorCard (BoardCardInHand c) = Some c"
| "compositionErrorCard (DuplicateBoardCard c) = Some c"
| "compositionErrorCard (DeadCardInHand c) = Some c"
| "compositionErrorCard (DuplicateDeadCard c) = Some c"
| "compositionErrorCard (CardInMultipleHands c) = Some c"
| "compositionErrorCard _ = None"

section \<open>Inputs of the examples\<close>

text \<open>The store in which object \<open>r\<close> holds the \<open>r\<close>-th list of cards.\<close>

definition objects :: "Card list list \<Rightarrow> store" where
  "objects xs = (\<lambda>r. if r < length xs then xs ! r else [])"

definition noOptions :: CalculationOptions where
  "noOptions = \<lparr> iterations = None, forceExhaustive = None,
                 maxExhaustiveCombinations = None, accuracyThreshold = None \<rparr>"

text \<open>The calculator the constructor returns for Texas Hold'em without dead cards.\<close>

definition holdemCalculator :: "ref list \<Rightarrow> ref \<Rightarrow> CalculationOptions \<Rightarrow> Calculator" where
  "holdemCalculator hs b opts =
     \<lparr> evaluator = HoldemEvaluator, hands = hs, board = b, deadCards = [],
       options = withDefaults opts \<rparr>"

text \<open>Two players; the objects 0 and 1 are their hands, object 2 is the board.\<close>

definition twoPlayers :: Calculator where
  "twoPlayers = holdemCalculator [0, 1] 2 noOptions"

text \<open>\<^verbatim>\<open>2s2h\<close> against \<^verbatim>\<open>AsKh\<close> on the board \<^verbatim>\<open>3d4c5sJc9s\<close>.\<close>

definition pairVsAceHigh :: store where
  "pairVsAceHigh = objects [[Card TWO SPADES, Card TWO HEARTS], [Card ACE SPADES, Card KING HEARTS],
     [Card THREE DIAMONDS, Card FOUR CLUBS, Card FIVE SPADES, Card JACK CLUBS, Card NINE SPADES]]"

text \<open>\<^verbatim>\<open>AsKs\<close>, \<^verbatim>\<open>AhKh\<close> and \<^verbatim>\<open>AdKd\<close> on the board \<^verbatim>\<open>2s3s4h5c7d\<close>; object 3
  is the board.\<close>

definition threePlayers :: Calculator where
  "threePlayers = holdemCalculator [0, 1, 2] 3 noOptions"

definition threeWayTie :: store where
  "threeWayTie = objects [[Card ACE SPADES, Card KING SPADES], [Card ACE HEARTS, Card KING HEARTS],
     [Card ACE DIAMONDS, Card KING DIAMONDS],
     [Card TWO SPADES, Card THREE SPADES, Card FOUR HEARTS, Card FIVE CLUBS, Card SEVEN DIAMONDS]]"

text \<open>\<^verbatim>\<open>AsKs\<close> against \<^verbatim>\<open>QhJh\<close> on the turn \<^verbatim>\<open>Ts9s2h8c\<close>.\<close>

definition turnBoard :: store where
  "turnBoard = objects [[Card ACE SPADES, Card KING SPADES], [Card QUEEN HEARTS, Card JACK HEARTS],
     [Card TEN SPADES, Card NINE SPADES, Card TWO HEARTS, Card EIGHT CLUBS]]"

text \<open>\<^verbatim>\<open>AsKs\<close> against the incomplete hand \<^verbatim>\<open>Ah\<close> on the turn \<^verbatim>\<open>2s3s4h5c\<close>.\<close>

definition incompleteHand :: store where
  "incompleteHand = objects [[Card ACE SPADES, Card KING SPADES], [Card ACE HEARTS],
     [Card TWO SPADES, Card THREE SPADES, Card FOUR HEARTS, Card FIVE CLUBS]]"

text \<open>The incomplete hand \<^verbatim>\<open>As\<close> against \<^verbatim>\<open>KsKh\<close> on the flop \<^verbatim>\<open>Ts9s2h\<close>, for
  two Monte Carlo iterations.\<close>

definition flopBoard :: store where
  "flopBoard = objects [[Card ACE SPADES], [Card KING SPADES, Card KING HEARTS],
     [Card TEN SPADES, Card NINE SPADES, Card TWO HEARTS]]"

definition twoIterations :: Calculator where
  "twoIterations = holdemCalculator [0, 1] 2 (noOptions\<lparr> iterations := Some 2 \<rparr>)"

text \<open>\<^verbatim>\<open>AsKs\<close> against \<^verbatim>\<open>QhJh\<close> before the flop, with the force flag and without.\<close>

definition preflop :: store where
  "preflop = objects [[Card ACE SPADES, Card KING SPADES], [Card QUEEN HEARTS, Card JACK HEARTS], []]"

definition forced :: Calculator where
  "forced = holdemCalculator [0, 1] 2 (noOptions\<lparr> forceExhaustive := Some True \<rparr>)"

text \<open>A configured ceiling of 0.\<close>

definition ceilingZero :: Calculator where
  "ceilingZero =
     holdemCalculator [0, 1] 2 (noOptions\<lparr> maxExhaustiveCombinations := Some (Num 0) \<rparr>)"

text \<open>Omaha with the force flag: the incomplete hand \<^verbatim>\<open>AsKsQs\<close> against
  \<^verbatim>\<open>AhKhQhJh\<close> on the board \<^verbatim>\<open>2c3c4d5d7h\<close>.\<close>

definition omahaForced :: Calculator where
  "omahaForced = \<lparr> evaluator = OmahaEvaluator, hands = [0, 1], board = 2, deadCards = [],
     options = withDefaults (noOptions\<lparr> forceExhaustive := Some True \<rparr>) \<rparr>"

definition omahaIncomplete :: store where
  "omahaIncomplete = objects [[Card ACE SPADES, Card KING SPADES, Card QUEEN SPADES],
     [Card ACE HEARTS, Card KING HEARTS, Card QUEEN HEARTS, Card JACK HEARTS],
     [Card TWO CLUBS, Card THREE CLUBS, Card FOUR DIAMONDS, Card FIVE DIAMONDS,
      Card SEVEN HEARTS]]"

text \<open>Two hands that both hold \<^verbatim>\<open>As\<close>.\<close>

definition sharedAce :: store where
  "sharedAce = objects [[Card ACE SPADES, Card KING SPADES], [Card ACE SPADES, Card QUEEN HEARTS], []]"

section \<open>The evaluators return\<close>

lemma generateCombinations_length:
  "c \<in> set (generateCombinations xs k) \<Longrightarrow> length c = k"
proof (induction xs k arbitrary: c rule: generateCombinations.induct)
  case (1 cards)
  then show ?case by simp
next
  case (2 k)
  then show ?case by simp
next
  case (3 first rest k)
  show ?case
  proof (cases "Suc k > length (first # rest)")
    case True
    with 3(3) show ?thesis by simp
  next
    case False
    with 3(3) have "c \<in> (#) first ` set (generateCombinations rest k)
        \<or> c \<in> set (generateCombinations rest (Suc k))"
      by simp
    then show ?thesis
    proof
      assume "c \<in> (#) first ` set (generateCombinations rest k)"
      then obtain d where d: "d \<in> set (generateCombinations rest k)" "c = first # d" by blast
      from 3(1)[OF False d(1)] d(2) show ?thesis by simp
    next
      assume "c \<in> set (generateCombinations rest (Suc k))"
      from 3(2)[OF False this] show ?thesis .
    qed
  qed
qed

lemma generateCombinations_one: "generateCombinations xs (Suc 0) = map (\<lambda>x. [x]) xs"
  by (induction xs) simp_all

lemma evaluateSingleHand_returns: "length c = 5 \<Longrightarrow> \<exists>e. evaluateSingleHand c = Inr e"
  unfolding evaluateSingleHand_def by (cases "classify c") simp

lemma bestHandLoop_returns:
  assumes "\<And>c. c \<in> set cs \<Longrightarrow> \<exists>e. score c = Inr e"
  shows "\<exists>e. bestHandLoop score b cs = Inr e"
  using assms
proof (induction cs arbitrary: b)
  case Nil
  show ?case by simp
next
  case (Cons c cs)
  from Cons.prems[of c] obtain e where e: "score c = Inr e" by auto
  have "\<exists>e'. bestHandLoop score (if value e > value b then e else b) cs = Inr e'"
    by (rule Cons.IH) (simp add: Cons.prems)
  with e show ?case by simp
qed

lemma holdemEvaluate_returns:
  assumes "5 \<le> length h + length b"
  shows "\<exists>e. holdemEvaluate h b = Inr e"
proof -
  have "\<exists>e. bestHandLoop evaluateSingleHand initialBestHand
              (generateCombinations (h @ b) 5) = Inr e"
    by (rule bestHandLoop_returns) (rule evaluateSingleHand_returns, erule generateCombinations_length)
  with assms show ?thesis by (simp add: holdemEvaluate_def)
qed

lemma mapE_returns:
  assumes "\<And>x. x \<in> set xs \<Longrightarrow> \<exists>y. f x = Inr y"
  shows "\<exists>ys. mapE f xs = Inr ys"
  using assms
proof (induction xs)
  case Nil
  show ?case by simp
next
  case (Cons x xs)
  from Cons.prems[of x] obtain y where y: "f x = Inr y" by auto
  have "\<exists>ys. mapE f xs = Inr ys" by (rule Cons.IH) (simp add: Cons.prems)
  with y show ?case by auto
qed

section \<open>The tie-break value and the category\<close>

text \<open>
  Claim C1 says that a hand of a higher category always has the greater value, so that
  the tally, which compares values only, never ranks a lower category above a higher
  one. The weight \<open>10000000\<close> of the category is smaller than the weight \<open>100^4\<close> of the
  highest card, and the claim fails: the scorer gives the pair \<^verbatim>\<open>2s 2h 3d 4c 5s\<close> the
  value 514030202 and the ace-high hand \<^verbatim>\<open>As Kh Qd Jc 9s\<close> the value 1413121109; in
  the exhaustive calculation of \<^verbatim>\<open>2s2h\<close> against \<^verbatim>\<open>AsKh\<close> on the board
  \<^verbatim>\<open>3d4c5sJc9s\<close> the second player, who holds ace high against a pair, is counted as
  the winner.
\<close>

theorem pair_valued_below_high_card:
  "evaluateSingleHand [Card TWO SPADES, Card TWO HEARTS, Card THREE DIAMONDS, Card FOUR CLUBS,
       Card FIVE SPADES]
     = Inr \<lparr> handRank = PAIR, value = 514030202, description = ''Pair of Twos'' \<rparr>
   \<and> evaluateSingleHand [Card ACE SPADES, Card KING HEARTS, Card QUEEN DIAMONDS, Card JACK CLUBS,
       Card NINE SPADES]
     = Inr \<lparr> handRank = HIGH_CARD, value = 1413121109, description = ''High Card, Ace'' \<rparr>
   \<and> handRankNum HIGH_CARD < handRankNum PAIR
   \<and> evaluateHands twoPlayers pairVsAceHigh
     = Inr [\<lparr> handRank = PAIR, value = 1119050202, description = ''Pair of Twos'' \<rparr>,
            \<lparr> handRank = HIGH_CARD, value = 1413110905, description = ''High Card, Ace'' \<rparr>]
   \<and> (case calculate twoPlayers pairVsAceHigh of
         Inl e \<Rightarrow> False
       | Inr (r, st', t) \<Rightarrow>
           map winsCount (playerResults r) = [0, 1]
           \<and> map equity (playerResults r) = [Some 0, Some 1])"
proof -
  have a: "evaluateSingleHand [Card TWO SPADES, Card TWO HEARTS, Card THREE DIAMONDS,
       Card FOUR CLUBS, Card FIVE SPADES]
     = Inr \<lparr> handRank = PAIR, value = 514030202, description = ''Pair of Twos'' \<rparr>"
    by code_simp
  have b: "evaluateSingleHand [Card ACE SPADES, Card KING HEARTS, Card QUEEN DIAMONDS,
       Card JACK CLUBS, Card NINE SPADES]
     = Inr \<lparr> handRank = HIGH_CARD, value = 1413121109, description = ''High Card, Ace'' \<rparr>"
    by code_simp
  have c: "handRankNum HIGH_CARD < handRankNum PAIR" by simp
  have d: "evaluateHands twoPlayers pairVsAceHigh
     = Inr [\<lparr> handRank = PAIR, value = 1119050202, description = ''Pair of Twos'' \<rparr>,
            \<lparr> handRank = HIGH_CARD, value = 1413110905, description = ''High Card, Ace'' \<rparr>]"
    by code_simp
  have e: "case calculate twoPlayers pairVsAceHigh of
         Inl e \<Rightarrow> False
       | Inr (r, st', t) \<Rightarrow>
           map winsCount (playerResults r) = [0, 1]
           \<and> map equity (playerResults r) = [Some 0, Some 1]"
    by code_simp
  from a b c d e show ?thesis by (intro conjI)
qed

text \<open>
  Claim C2 says that a wheel \<^verbatim>\<open>A-2-3-4-5\<close> has a smaller value than a six-high
  straight. \<^verbatim>\<open>calculateHandValue\<close> sorts the cards of the wheel by rank again, so the
  ace weighs 14 in the first position, and the wheel \<^verbatim>\<open>As 2h 3d 4c 5s\<close> gets the
  value 1445040302, above the 645040302 of the straight \<^verbatim>\<open>6s 2h 3d 4c 5s\<close>.
\<close>

theorem wheel_valued_above_six_high_straight:
  "evaluateSingleHand [Card ACE SPADES, Card TWO HEARTS, Card THREE DIAMONDS, Card FOUR CLUBS,
       Card FIVE SPADES]
     = Inr \<lparr> handRank = STRAIGHT, value = 1445040302, description = ''Straight, Ace high'' \<rparr>
   \<and> evaluateSingleHand [Card SIX SPADES, Card TWO HEARTS, Card THREE DIAMONDS, Card FOUR CLUBS,
       Card FIVE SPADES]
     = Inr \<lparr> handRank = STRAIGHT, value = 645040302, description = ''Straight, Six high'' \<rparr>
   \<and> findStraight [Card ACE SPADES, Card TWO HEARTS, Card THREE DIAMONDS, Card FOUR CLUBS,
       Card FIVE SPADES]
     = Some [Card ACE SPADES, Card FIVE SPADES, Card FOUR CLUBS, Card THREE DIAMONDS,
             Card TWO HEARTS]"
proof -
  have a: "evaluateSingleHand [Card ACE SPADES, Card TWO HEARTS, Card THREE DIAMONDS,
       Card FOUR CLUBS, Card FIVE SPADES]
     = Inr \<lparr> handRank = STRAIGHT, value = 1445040302, description = ''Straight, Ace high'' \<rparr>"
    by code_simp
  have b: "evaluateSingleHand [Card SIX SPADES, Card TWO HEARTS, Card THREE DIAMONDS,
       Card FOUR CLUBS, Card FIVE SPADES]
     = Inr \<lparr> handRank = STRAIGHT, value = 645040302, description = ''Straight, Six high'' \<rparr>"
    by code_simp
  have c: "findStraight [Card ACE SPADES, Card TWO HEARTS, Card THREE DIAMONDS, Card FOUR CLUBS,
       Card FIVE SPADES]
     = Some [Card ACE SPADES, Card FIVE SPADES, Card FOUR CLUBS, Card THREE DIAMONDS,
             Card TWO HEARTS]"
    by code_simp
  from a b c show ?thesis by (intro conjI)
qed

text \<open>
  Claim C9 says that \<^verbatim>\<open>evaluate\<close> returns the same category, value and description
  for every order of the hole cards and of the board cards. A full house of fours and
  aces and four fours with an ace have the same value 1474040404, and the loop keeps the
  first hand of the greatest value: with the hole cards \<^verbatim>\<open>As 4s\<close> the board
  \<^verbatim>\<open>Ah 4h 4d 4c 2c\<close> is evaluated as a full house and the same board in the order
  \<^verbatim>\<open>4h 4d 4c Ah 2c\<close> as four of a kind.
\<close>

theorem evaluate_depends_on_board_order:
  "evaluate HoldemEvaluator [Card ACE SPADES, Card FOUR SPADES]
       [Card ACE HEARTS, Card FOUR HEARTS, Card FOUR DIAMONDS, Card FOUR CLUBS, Card TWO CLUBS]
     = Inr \<lparr> handRank = FULL_HOUSE, value = 1474040404,
              description = ''Full House, Fours full of Aces'' \<rparr>
   \<and> evaluate HoldemEvaluator [Card ACE SPADES, Card FOUR SPADES]
       [Card FOUR HEARTS, Card FOUR DIAMONDS, Card FOUR CLUBS, Card ACE HEARTS, Card TWO CLUBS]
     = Inr \<lparr> handRank = FOUR_OF_A_KIND, value = 1474040404,
              description = ''Four of a Kind, Fours with Ace kicker'' \<rparr>"
proof -
  have a: "evaluate HoldemEvaluator [Card ACE SPADES, Card FOUR SPADES]
       [Card ACE HEARTS, Card FOUR HEARTS, Card FOUR DIAMONDS, Card FOUR CLUBS, Card TWO CLUBS]
     = Inr \<lparr> handRank = FULL_HOUSE, value = 1474040404,
              description = ''Full House, Fours full of Aces'' \<rparr>"
    by code_simp
  have b: "evaluate HoldemEvaluator [Card ACE SPADES, Card FOUR SPADES]
       [Card FOUR HEARTS, Card FOUR DIAMONDS, Card FOUR CLUBS, Card ACE HEARTS, Card TWO CLUBS]
     = Inr \<lparr> handRank = FOUR_OF_A_KIND, value = 1474040404,
              description = ''Four of a Kind, Fours with Ace kicker'' \<rparr>"
    by code_simp
  from a b show ?thesis by (intro conjI)
qed

text \<open>
  Claim C10 says that \<^verbatim>\<open>evaluateHand\<close> returns an evaluated hand for every hand
  string and board with at least five cards in total, and never fails with a composition
  error. \<^verbatim>\<open>createHand\<close> validates the hand itself, and the evaluator is that of the
  variant: the hand string \<^verbatim>\<open>AsAs\<close> on the board \<^verbatim>\<open>2h2d2c\<close>, five cards in
  total, fails with the composition error of a card that is twice in the hand, and for
  Omaha the hand \<^verbatim>\<open>AsKs\<close> on the same board fails on the number of hole cards.
\<close>

theorem evaluateHand_fails_with_five_cards:
  "createCards ''AsAs'' = Inr [Card ACE SPADES, Card ACE SPADES]
   \<and> length [Card ACE SPADES, Card ACE SPADES]
       + length [Card TWO HEARTS, Card TWO DIAMONDS, Card TWO CLUBS] = 5
   \<and> evaluateHand TEXAS_HOLDEM [Card TWO HEARTS, Card TWO DIAMONDS, Card TWO CLUBS] ''AsAs''
       = Inl (DuplicateCardInHand (Card ACE SPADES))
   \<and> createHand ''AsKs'' OMAHA = Inr [Card ACE SPADES, Card KING SPADES]
   \<and> evaluateHand OMAHA [Card TWO HEARTS, Card TWO DIAMONDS, Card TWO CLUBS] ''AsKs''
       = Inl (OmahaHoleCards 2)"
proof -
  have a: "createCards ''AsAs'' = Inr [Card ACE SPADES, Card ACE SPADES]" by code_simp
  have b: "length [Card ACE SPADES, Card ACE SPADES]
       + length [Card TWO HEARTS, Card TWO DIAMONDS, Card TWO CLUBS] = 5"
    by simp
  have c: "evaluateHand TEXAS_HOLDEM [Card TWO HEARTS, Card TWO DIAMONDS, Card TWO CLUBS]
       ''AsAs'' = Inl (DuplicateCardInHand (Card ACE SPADES))"
    by code_simp
  have d: "createHand ''AsKs'' OMAHA = Inr [Card ACE SPADES, Card KING SPADES]" by code_simp
  have e: "evaluateHand OMAHA [Card TWO HEARTS, Card TWO DIAMONDS, Card TWO CLUBS] ''AsKs''
       = Inl (OmahaHoleCards 2)"
    by code_simp
  from a b c d e show ?thesis by (intro conjI)
qed

text \<open>
  Claim C10 as amended: for Texas Hold'em and every hand string that \<^verbatim>\<open>createHand\<close>
  accepts (well-formed card tokens, at most two cards, no card twice in the hand),
  whenever the hole cards and the board cards are at least five in total,
  \<^verbatim>\<open>evaluateHand\<close> returns an evaluated hand, the one the Hold'em evaluator computes
  from the two lists, also when a card is both among the hole cards and on the board: the
  combined cards are never checked for duplicates.
\<close>

theorem evaluateHand_returns_without_cross_check:
  assumes "createHand handStr TEXAS_HOLDEM = Inr holeCards"
    and "5 \<le> length holeCards + length boardCards"
  shows "\<exists>e. evaluateHand TEXAS_HOLDEM boardCards handStr = Inr e
           \<and> holdemEvaluate holeCards boardCards = Inr e"
proof -
  from holdemEvaluate_returns[OF assms(2)] obtain e where "holdemEvaluate holeCards boardCards = Inr e"
    by blast
  with assms(1) show ?thesis by (simp add: evaluateHand_def)
qed

text \<open>The hand \<^verbatim>\<open>AsKs\<close> on the board \<^verbatim>\<open>As Ks Qs Js Ts\<close>, which holds both hole
  cards again.\<close>

theorem evaluateHand_returns_without_cross_check_witness:
  "createHand ''AsKs'' TEXAS_HOLDEM = Inr [Card ACE SPADES, Card KING SPADES]
   \<and> 5 \<le> length [Card ACE SPADES, Card KING SPADES]
          + length [Card ACE SPADES, Card KING SPADES, Card QUEEN SPADES, Card JACK SPADES,
                    Card TEN SPADES]
   \<and> (\<exists>e. evaluateHand TEXAS_HOLDEM
            [Card ACE SPADES, Card KING SPADES, Card QUEEN SPADES, Card JACK SPADES,
             Card TEN SPADES] ''AsKs'' = Inr e
         \<and> holdemEvaluate [Card ACE SPADES, Card KING SPADES]
            [Card ACE SPADES, Card KING SPADES, Card QUEEN SPADES, Card JACK SPADES,
             Card TEN SPADES] = Inr e)"
proof -
  have h: "createHand ''AsKs'' TEXAS_HOLDEM = Inr [Card ACE SPADES, Card KING SPADES]"
    by code_simp
  have l: "5 \<le> length [Card ACE SPADES, Card KING SPADES]
          + length [Card ACE SPADES, Card KING SPADES, Card QUEEN SPADES, Card JACK SPADES,
                    Card TEN SPADES]"
    by simp
  from h l evaluateHand_returns_without_cross_check[OF h l] show ?thesis by (intro conjI)
qed

section \<open>The equities of a three-way tie\<close>

text \<open>
  Claim C3 says that the equities of an exact calculation sum to 1, also when three or
  more players tie. A tie adds one to the tie count of every winner and the equity halves
  the tie count whatever the number of winners: for \<^verbatim>\<open>AsKs\<close>, \<^verbatim>\<open>AhKh\<close> and
  \<^verbatim>\<open>AdKd\<close> on the board \<^verbatim>\<open>2s3s4h5c7d\<close> the one scenario is a tie of all three,
  every equity is 1/2 and the sum is 3/2, while the winning-category counts, which divide
  by the number of winners, are 1/3 each.
\<close>

theorem three_way_tie_equities_sum_to_three_halves:
  "case calculate threePlayers threeWayTie of
     Inl e \<Rightarrow> False
   | Inr (r, st', t) \<Rightarrow>
       totalHands r = 1 \<and> isExact r
       \<and> map tiesCount (playerResults r) = [1, 1, 1]
       \<and> map winsCount (playerResults r) = [0, 0, 0]
       \<and> map equity (playerResults r) = [Some (1 / 2), Some (1 / 2), Some (1 / 2)]
       \<and> sum_list (map (\<lambda>p. the (equity p)) (playerResults r)) = 3 / 2
       \<and> map (\<lambda>p. winningHandRankCounts p STRAIGHT) (playerResults r)
           = [Some (1 / 3), Some (1 / 3), Some (1 / 3)]"
  by code_simp

section \<open>The objects of the caller after a Monte Carlo calculation\<close>

text \<open>
  Claim C5 says that every Monte Carlo iteration restores the hands and the board and
  that the objects the caller supplied hold their original cards when \<^verbatim>\<open>calculate\<close>
  returns. An iteration deals into the objects the fields refer to and then points the
  fields to the copies it made; in the first iteration the objects are those of the
  caller, and nothing writes to them again. With the hand \<^verbatim>\<open>As\<close> against
  \<^verbatim>\<open>KsKh\<close> on the flop \<^verbatim>\<open>Ts9s2h\<close>, two iterations and a shuffle that leaves the
  deck in order, the hand object of the caller ends with two cards and the board object
  with five.
\<close>

theorem monte_carlo_leaves_dealt_cards_in_caller_objects:
  "newCalculator flopBoard [0, 1] 2 [] TEXAS_HOLDEM (noOptions\<lparr> iterations := Some 2 \<rparr>)
     = Inr twoIterations
   \<and> flopBoard 0 = [Card ACE SPADES]
   \<and> flopBoard 2 = [Card TEN SPADES, Card NINE SPADES, Card TWO HEARTS]
   \<and> (case mcCalculate (\<lambda>k deck. deck) twoIterations flopBoard 3 of
         Inl e \<Rightarrow> False
       | Inr (r, st') \<Rightarrow>
           totalHands r = 2
           \<and> st' 0 = [Card ACE SPADES, Card ACE CLUBS]
           \<and> st' 2 = [Card TEN SPADES, Card NINE SPADES, Card TWO HEARTS, Card KING CLUBS,
                      Card QUEEN CLUBS])"
proof -
  have a: "newCalculator flopBoard [0, 1] 2 [] TEXAS_HOLDEM (noOptions\<lparr> iterations := Some 2 \<rparr>)
     = Inr twoIterations"
    by code_simp
  have b: "flopBoard 0 = [Card ACE SPADES]"
    "flopBoard 2 = [Card TEN SPADES, Card NINE SPADES, Card TWO HEARTS]"
    by (simp_all add: flopBoard_def objects_def)
  have c: "case mcCalculate (\<lambda>k deck. deck) twoIterations flopBoard 3 of
         Inl e \<Rightarrow> False
       | Inr (r, st') \<Rightarrow>
           totalHands r = 2
           \<and> st' 0 = [Card ACE SPADES, Card ACE CLUBS]
           \<and> st' 2 = [Card TEN SPADES, Card NINE SPADES, Card TWO HEARTS, Card KING CLUBS,
                      Card QUEEN CLUBS]"
    by code_simp
  from a b c show ?thesis by (intro conjI)
qed

section \<open>The exhaustive calculator on Texas Hold'em\<close>

text \<open>
  With a board of five cards or more the Hold'em evaluator returns for every hand, and
  \<^verbatim>\<open>applyCompletions\<close> only ever appends to the board. So the exhaustive loops
  over the lists of the model, which have no bound, return, and the list of evaluated
  scenarios only grows.
\<close>

lemma evaluateAndUpdateEquity_holdem:
  assumes "evaluator calc = HoldemEvaluator" "5 \<le> length (store s (board calc))"
  shows "\<exists>s'. evaluateAndUpdateEquity calc s = Inr s' \<and> store s' = store s
           \<and> evaluatedScenarios s' =
               evaluatedScenarios s @ [(map (store s) (hands calc), store s (board calc))]"
proof -
  have "\<exists>ys. mapE (\<lambda>h. evaluate (evaluator calc) (store s h) (store s (board calc))) (hands calc)
          = Inr ys"
  proof (rule mapE_returns)
    fix h
    from assms(2) have "5 \<le> length (store s h) + length (store s (board calc))" by simp
    from holdemEvaluate_returns[OF this] assms(1)
    show "\<exists>y. evaluate (evaluator calc) (store s h) (store s (board calc)) = Inr y" by simp
  qed
  then obtain ys where "evaluateHands calc (store s) = Inr ys"
    by (auto simp: evaluateHands_def)
  then show ?thesis by (simp add: evaluateAndUpdateEquity_def)
qed

lemma applyCompletions_board:
  "applyCompletions calc inc hcs bc st (board calc) = st (board calc) @ bc"
  by (simp add: applyCompletions_def Let_def)

lemma evaluateBoardCompletions_holdem:
  assumes "evaluator calc = HoldemEvaluator"
    and "\<And>bc. bc \<in> set bcs \<Longrightarrow> 5 \<le> length (store s (board calc)) + length bc"
  shows "\<exists>n s'. evaluateBoardCompletions calc inc cur bcs count s = Inr (n, s')
           \<and> length (store s (board calc)) \<le> length (store s' (board calc))
           \<and> (\<exists>ext. evaluatedScenarios s' = evaluatedScenarios s @ ext)"
  using assms(2)
proof (induction bcs arbitrary: count s)
  case Nil
  show ?case by simp
next
  case (Cons bc bcs)
  let ?s1 = "s\<lparr> store := applyCompletions calc inc cur bc (store s) \<rparr>"
  have len1: "length (store ?s1 (board calc)) = length (store s (board calc)) + length bc"
    by (simp add: applyCompletions_board)
  from Cons.prems[of bc] have "5 \<le> length (store ?s1 (board calc))"
    by (simp add: applyCompletions_board)
  from evaluateAndUpdateEquity_holdem[OF assms(1) this]
  obtain s2 where s2: "evaluateAndUpdateEquity calc ?s1 = Inr s2" "store s2 = store ?s1"
    "evaluatedScenarios s2 = evaluatedScenarios ?s1
       @ [(map (store ?s1) (hands calc), store ?s1 (board calc))]"
    by blast
  have "\<exists>n s'. evaluateBoardCompletions calc inc cur bcs (count + 1) s2 = Inr (n, s')
           \<and> length (store s2 (board calc)) \<le> length (store s' (board calc))
           \<and> (\<exists>ext. evaluatedScenarios s' = evaluatedScenarios s2 @ ext)"
  proof (rule Cons.IH)
    fix bc' assume "bc' \<in> set bcs"
    with Cons.prems[of bc'] have "5 \<le> length (store s (board calc)) + length bc'" by simp
    with s2(2) len1 show "5 \<le> length (store s2 (board calc)) + length bc'" by simp
  qed
  then obtain n s' where r: "evaluateBoardCompletions calc inc cur bcs (count + 1) s2 = Inr (n, s')"
    "length (store s2 (board calc)) \<le> length (store s' (board calc))"
    "\<exists>ext. evaluatedScenarios s' = evaluatedScenarios s2 @ ext"
    by blast
  from r(3) s2(3) have "\<exists>ext. evaluatedScenarios s' = evaluatedScenarios s @ ext" by auto
  moreover from r(2) s2(2) len1 have "length (store s (board calc)) \<le> length (store s' (board calc))"
    by simp
  ultimately show ?case using s2(1) r(1) by simp
qed

lemma evaluateAllCombinations_holdem:
  "evaluator calc = HoldemEvaluator \<Longrightarrow>
   (\<And>bc. bc \<in> set bcs \<Longrightarrow> 5 \<le> length (store s (board calc)) + length bc) \<Longrightarrow>
   \<exists>n s'. evaluateAllCombinations calc hIndex inc hcs bcs cur s = Inr (n, s')
      \<and> length (store s (board calc)) \<le> length (store s' (board calc))
      \<and> (\<exists>ext. evaluatedScenarios s' = evaluatedScenarios s @ ext)"
  and tryCompletions_holdem:
  "evaluator calc = HoldemEvaluator \<Longrightarrow>
   (\<And>bc. bc \<in> set bcs \<Longrightarrow> 5 \<le> length (store s (board calc)) + length bc) \<Longrightarrow>
   \<exists>n s'. tryCompletions calc hIndex inc hcs bcs cur comps totalCount s = Inr (n, s')
      \<and> length (store s (board calc)) \<le> length (store s' (board calc))
      \<and> (\<exists>ext. evaluatedScenarios s' = evaluatedScenarios s @ ext)"
proof (induction calc hIndex inc hcs bcs cur s and calc hIndex inc hcs bcs cur comps totalCount s
       rule: evaluateAllCombinations_tryCompletions.induct)
  case (1 calc hIndex inc hcs bcs cur s)
  show ?case
  proof (cases "hIndex \<ge> length inc")
    case True
    from evaluateBoardCompletions_holdem[OF "1.prems"(1), of bcs s inc cur 0] "1.prems"(2)
    show ?thesis using True by (simp add: evaluateAllCombinations.simps)
  next
    case False
    from "1.IH"[OF False "1.prems"(1)] "1.prems"(2)
    show ?thesis using False by (simp add: evaluateAllCombinations.simps)
  qed
next
  case (2 calc hIndex inc hcs bcs cur totalCount s)
  show ?case by simp
next
  case (3 calc hIndex inc hcs bcs cur completion completions totalCount s)
  show ?case
  proof (cases "hasConflict hIndex cur completion")
    case True
    from "3.IH"(1)[OF True "3.prems"(1)] "3.prems"(2)
    show ?thesis using True by simp
  next
    case False
    from "3.IH"(2)[OF False "3.prems"(1)] "3.prems"(2)
    obtain n1 s1 where r1: "evaluateAllCombinations calc (hIndex + 1) inc hcs bcs
          (cur[hIndex := completion]) s = Inr (n1, s1)"
      "length (store s (board calc)) \<le> length (store s1 (board calc))"
      "\<exists>ext. evaluatedScenarios s1 = evaluatedScenarios s @ ext"
      by blast
    have "\<exists>n s'. tryCompletions calc hIndex inc hcs bcs (cur[hIndex := completion]) completions
              (totalCount + n1) s1 = Inr (n, s')
      \<and> length (store s1 (board calc)) \<le> length (store s' (board calc))
      \<and> (\<exists>ext. evaluatedScenarios s' = evaluatedScenarios s1 @ ext)"
    proof (rule "3.IH"(3)[OF False r1(1) refl "3.prems"(1)])
      fix bc assume "bc \<in> set bcs"
      from "3.prems"(2)[OF this] r1(2)
      show "5 \<le> length (store s1 (board calc)) + length bc" by simp
    qed
    then obtain n2 s2 where r2: "tryCompletions calc hIndex inc hcs bcs (cur[hIndex := completion])
          completions (totalCount + n1) s1 = Inr (n2, s2)"
      "length (store s1 (board calc)) \<le> length (store s2 (board calc))"
      "\<exists>ext. evaluatedScenarios s2 = evaluatedScenarios s1 @ ext"
      by blast
    from r1(3) r2(3) have "\<exists>ext. evaluatedScenarios s2 = evaluatedScenarios s @ ext" by auto
    with r1 r2 False show ?thesis by simp
  qed
qed

section \<open>Where the errors of the exhaustive calculator come from\<close>

lemma bestHandLoop_error:
  "bestHandLoop score b cs = Inl e \<Longrightarrow> \<exists>c \<in> set cs. score c = Inl e"
proof (induction cs arbitrary: b)
  case Nil
  then show ?case by simp
next
  case (Cons c cs)
  show ?case
  proof (cases "score c")
    case (Inl e')
    with Cons.prems show ?thesis by simp
  next
    case (Inr ev)
    with Cons.prems have "bestHandLoop score (if value ev > value b then ev else b) cs = Inl e"
      by simp
    from Cons.IH[OF this] show ?thesis by auto
  qed
qed

lemma holdemEvaluate_error:
  assumes "holdemEvaluate h b = Inl e"
  shows "e \<noteq> TooManyCombinations n"
proof (cases "length (h @ b) < 5")
  case True
  with assms show ?thesis by (auto simp: holdemEvaluate_def)
next
  case False
  with assms have "bestHandLoop evaluateSingleHand initialBestHand
      (generateCombinations (h @ b) 5) = Inl e"
    by (simp add: holdemEvaluate_def)
  from bestHandLoop_error[OF this] obtain c where "evaluateSingleHand c = Inl e" by blast
  then show ?thesis
    by (cases "classify c") (auto simp: evaluateSingleHand_def split: if_splits)
qed

lemma omahaEvaluate_error:
  assumes "omahaEvaluate h b = Inl e"
  shows "e \<noteq> TooManyCombinations n"
proof (cases "length h \<noteq> 4 \<or> length b < 3")
  case True
  with assms show ?thesis by (auto simp: omahaEvaluate_def split: if_splits)
next
  case False
  with assms have "bestHandLoop (\<lambda>(holeCombo, boardCombo). holdemEvaluate holeCombo boardCombo)
      initialBestHand
      (List.product (generateCombinations h 2) (generateCombinations b 3)) = Inl e"
    by (simp add: omahaEvaluate_def)
  from bestHandLoop_error[OF this] obtain hc bc where "holdemEvaluate hc bc = Inl e" by auto
  then show ?thesis by (rule holdemEvaluate_error)
qed

lemma evaluate_error: "evaluate ev h b = Inl e \<Longrightarrow> e \<noteq> TooManyCombinations n"
  by (cases ev) (auto dest: holdemEvaluate_error omahaEvaluate_error)

lemma mapE_error: "mapE f xs = Inl e \<Longrightarrow> \<exists>x \<in> set xs. f x = Inl e"
  by (induction xs) (auto split: sum.splits)

lemma evaluateAndUpdateEquity_error:
  assumes "evaluateAndUpdateEquity calc s = Inl e"
  shows "e \<noteq> TooManyCombinations n"
proof -
  from assms have "evaluateHands calc (store s) = Inl e"
    by (auto simp: evaluateAndUpdateEquity_def split: sum.splits)
  from mapE_error[OF this[unfolded evaluateHands_def]]
  obtain h where "evaluate (evaluator calc) (store s h) (store s (board calc)) = Inl e" by blast
  then show ?thesis by (rule evaluate_error)
qed

lemma evaluateBoardCompletions_error:
  "evaluateBoardCompletions calc inc cur bcs count s = Inl e \<Longrightarrow> e \<noteq> TooManyCombinations n"
proof (induction bcs arbitrary: count s)
  case Nil
  then show ?case by simp
next
  case (Cons bc bcs)
  show ?case
  proof (cases "evaluateAndUpdateEquity calc
                  (s\<lparr> store := applyCompletions calc inc cur bc (store s) \<rparr>)")
    case (Inl e')
    with Cons.prems have "e' = e" by simp
    with Inl show ?thesis by (auto dest: evaluateAndUpdateEquity_error)
  next
    case (Inr s')
    with Cons.prems have "evaluateBoardCompletions calc inc cur bcs (count + 1) s' = Inl e" by simp
    then show ?thesis by (rule Cons.IH)
  qed
qed

lemma evaluateAllCombinations_error:
  "evaluateAllCombinations calc hIndex inc hcs bcs cur s = Inl e \<Longrightarrow> e \<noteq> TooManyCombinations n"
  and tryCompletions_error:
  "tryCompletions calc hIndex inc hcs bcs cur comps totalCount s = Inl e
     \<Longrightarrow> e \<noteq> TooManyCombinations n"
proof (induction calc hIndex inc hcs bcs cur s and calc hIndex inc hcs bcs cur comps totalCount s
       rule: evaluateAllCombinations_tryCompletions.induct)
  case (1 calc hIndex inc hcs bcs cur s)
  show ?case
  proof (cases "hIndex \<ge> length inc")
    case True
    with "1.prems" have "evaluateBoardCompletions calc inc cur bcs 0 s = Inl e"
      by (simp add: evaluateAllCombinations.simps)
    then show ?thesis by (rule evaluateBoardCompletions_error)
  next
    case False
    with "1.prems" have "tryCompletions calc hIndex inc hcs bcs cur (hcs ! hIndex) 0 s = Inl e"
      by (simp add: evaluateAllCombinations.simps)
    from "1.IH"[OF False this] show ?thesis .
  qed
next
  case (2 calc hIndex inc hcs bcs cur totalCount s)
  then show ?case by simp
next
  case (3 calc hIndex inc hcs bcs cur completion completions totalCount s)
  show ?case
  proof (cases "hasConflict hIndex cur completion")
    case True
    with "3.prems" have "tryCompletions calc hIndex inc hcs bcs cur completions totalCount s = Inl e"
      by simp
    from "3.IH"(1)[OF True this] show ?thesis .
  next
    case False
    show ?thesis
    proof (cases "evaluateAllCombinations calc (hIndex + 1) inc hcs bcs
                    (cur[hIndex := completion]) s")
      case (Inl e')
      with False "3.prems" have "e' = e" by simp
      with Inl "3.IH"(2)[OF False] show ?thesis by simp
    next
      case (Inr r)
      obtain n1 s1 where r: "r = (n1, s1)" by (cases r)
      with Inr False "3.prems" have "tryCompletions calc hIndex inc hcs bcs
          (cur[hIndex := completion]) completions (totalCount + n1) s1 = Inl e"
        by simp
      from "3.IH"(3)[OF False Inr[unfolded r] refl this] show ?thesis .
    qed
  qed
qed

lemma evaluateScenarios_error:
  assumes "evaluateScenarios calc st = Inl e"
  shows "e \<noteq> TooManyCombinations n"
proof (cases "incompleteHandsOf calc st = []
    \<and> cardsNeededForBoard (st (board calc)) (getVariant (evaluator calc)) = 0")
  case True
  with assms show ?thesis
    by (auto simp: evaluateScenarios_def Let_def split: sum.splits
             dest: evaluateAndUpdateEquity_error)
next
  case False
  with assms have "evaluateAllCombinations calc 0 (incompleteHandsOf calc st)
      (handCompletionsOf calc st) (boardCompletionsOf calc st)
      (map (\<lambda>_. []) (incompleteHandsOf calc st))
      \<lparr> store = st, results = createInitialPlayerEquities calc, evaluatedScenarios = [] \<rparr> = Inl e"
    by (auto simp: evaluateScenarios_def Let_def)
  then show ?thesis by (rule evaluateAllCombinations_error)
qed

lemma boardCompletionsOf_holdem:
  assumes "evaluator calc = HoldemEvaluator" "bc \<in> set (boardCompletionsOf calc st)"
  shows "5 \<le> length (st (board calc)) + length bc"
proof (cases "cardsNeededForBoard (st (board calc)) TEXAS_HOLDEM > 0")
  case True
  with assms have "bc \<in> set (generateCombinations (createDeckWithoutUsedCards calc st)
      (cardsNeededForBoard (st (board calc)) TEXAS_HOLDEM))"
    by (simp add: boardCompletionsOf_def Let_def)
  from generateCombinations_length[OF this] show ?thesis
    by (simp add: cardsNeededForBoard_def)
next
  case False
  with assms have "bc = []" by (simp add: boardCompletionsOf_def Let_def)
  with False show ?thesis by (simp add: cardsNeededForBoard_def)
qed

lemma evaluateScenarios_holdem:
  assumes "evaluator calc = HoldemEvaluator"
  shows "\<exists>n s. evaluateScenarios calc st = Inr (n, s)"
proof (cases "incompleteHandsOf calc st = []
    \<and> cardsNeededForBoard (st (board calc)) (getVariant (evaluator calc)) = 0")
  case True
  let ?s0 = "\<lparr> store = st, results = createInitialPlayerEquities calc, evaluatedScenarios = [] \<rparr>"
  from True assms have "5 \<le> length (store ?s0 (board calc))"
    by (simp add: cardsNeededForBoard_def)
  from evaluateAndUpdateEquity_holdem[OF assms this]
  obtain s' where "evaluateAndUpdateEquity calc ?s0 = Inr s'" by blast
  with True show ?thesis by (simp add: evaluateScenarios_def Let_def)
next
  case False
  let ?s0 = "\<lparr> store = st, results = createInitialPlayerEquities calc, evaluatedScenarios = [] \<rparr>"
  have "\<exists>n s'. evaluateAllCombinations calc 0 (incompleteHandsOf calc st)
      (handCompletionsOf calc st) (boardCompletionsOf calc st)
      (map (\<lambda>_. []) (incompleteHandsOf calc st)) ?s0 = Inr (n, s')
      \<and> length (store ?s0 (board calc)) \<le> length (store s' (board calc))
      \<and> (\<exists>ext. evaluatedScenarios s' = evaluatedScenarios ?s0 @ ext)"
  proof (rule evaluateAllCombinations_holdem[OF assms])
    fix bc assume "bc \<in> set (boardCompletionsOf calc st)"
    from boardCompletionsOf_holdem[OF assms this]
    show "5 \<le> length (store ?s0 (board calc)) + length bc" by simp
  qed
  with False show ?thesis by (auto simp: evaluateScenarios_def Let_def)
qed

section \<open>Numbers that are rounded to themselves\<close>

lemma roundHalfEven_of_int: "roundHalfEven (rat_of_int m) = m"
  by (simp add: roundHalfEven_def)

lemma log2Floor_of_int_le:
  assumes "0 < n" "n < 2 ^ 53"
  shows "log2Floor (rat_of_int n) \<le> 52"
proof -
  from assms(2) have "bitlen n \<le> 53" by (simp add: bitlen_le_iff_power)
  moreover have "bitlen 1 = 1" by (simp add: bitlen_alt_def)
  ultimately show ?thesis by (simp add: log2Floor_def Let_def)
qed

lemma roundToDouble_exact:
  assumes "0 < n" "n < 2 ^ 53"
  shows "roundToDouble (rat_of_int n) = Num (rat_of_int n)"
proof -
  let ?x = "rat_of_int n"
  define q where "q = max (log2Floor \<bar>?x\<bar> - 52) (- 1074)"
  define k where "k = nat (- q)"
  from assms(1) have pos: "0 < ?x" and ab: "\<bar>?x\<bar> = ?x" by simp_all
  from log2Floor_of_int_le[OF assms] have "q \<le> 0" by (simp add: q_def ab)
  then have pw: "(2 :: rat) powi q = 1 / 2 ^ k"
    by (cases "q = 0")
       (simp_all add: power_int_def k_def inverse_eq_divide power_one_over divide_simps)
  have "?x / 2 powi q = rat_of_int (n * 2 ^ k)" by (simp add: pw)
  then have r: "roundHalfEven (\<bar>?x\<bar> / 2 powi q) = n * 2 ^ k"
    by (simp only: ab roundHalfEven_of_int)
  have y: "rat_of_int (roundHalfEven (\<bar>?x\<bar> / 2 powi q)) * 2 powi q = ?x"
    unfolding r by (simp add: pw)
  from assms(2) have "?x < 2 ^ 53" by simp
  also have "(2 :: rat) ^ 53 < 2 ^ 1024" by simp
  finally have lt: "\<not> 2 ^ 1024 \<le> ?x" by simp
  from pos have nz: "?x \<noteq> 0" by simp
  show ?thesis
    unfolding roundToDouble_def Let_def q_def[symmetric]
    by (simp only: y nz lt pos if_False if_True)
qed

lemma numTimes_exact:
  assumes "x \<in> \<int>" "y \<in> \<int>" "0 < x * y" "x * y < 2 ^ 53"
  shows "numTimes (Num x) (Num y) = Num (x * y)"
proof -
  from assms(1,2) have "x * y \<in> \<int>" by simp
  then obtain n where n: "x * y = rat_of_int n" by (auto elim: Ints_cases)
  with assms(3,4) have "0 < n" "n < 2 ^ 53" by simp_all
  from roundToDouble_exact[OF this] n show ?thesis by (simp add: numTimes_def)
qed

lemma numDivide_exact:
  assumes "y \<noteq> 0" "x / y \<in> \<int>" "0 < x / y" "x / y < 2 ^ 53"
  shows "numDivide (Num x) (Num y) = Num (x / y)"
proof -
  from assms(2) obtain n where n: "x / y = rat_of_int n" by (auto elim: Ints_cases)
  with assms(3,4) have "0 < n" "n < 2 ^ 53" by simp_all
  from roundToDouble_exact[OF this] n assms(1) show ?thesis by (simp add: numDivide_def)
qed

lemma numLessEq_Num: "numLessEq (Num x) (Num y) \<longleftrightarrow> x \<le> y"
  by (simp add: numLessEq_def)

text \<open>The estimates of the examples with cards to deal.\<close>

lemma estimate_turnBoard: "estimateCombinations twoPlayers turnBoard = Num 44"
proof -
  have "totalCardsToDeal twoPlayers turnBoard = 1" by code_simp
  moreover have "remainingCardCount twoPlayers turnBoard = 44" by code_simp
  ultimately show ?thesis
    by (simp add: estimateCombinations_def factorial.simps numTimes_exact numDivide_exact)
qed

lemma estimate_incompleteHand: "estimateCombinations twoPlayers incompleteHand = Num 990"
proof -
  have "totalCardsToDeal twoPlayers incompleteHand = 2" by code_simp
  moreover have "remainingCardCount twoPlayers incompleteHand = 45" by code_simp
  ultimately show ?thesis
    by (simp add: estimateCombinations_def eval_nat_numeral factorial.simps numTimes_exact
          numDivide_exact)
qed

lemma estimate_preflop: "estimateCombinations twoPlayers preflop = Num 1712304"
proof -
  have "totalCardsToDeal twoPlayers preflop = 5" by code_simp
  moreover have "remainingCardCount twoPlayers preflop = 48" by code_simp
  ultimately show ?thesis
    by (simp add: estimateCombinations_def eval_nat_numeral factorial.simps numTimes_exact
          numDivide_exact)
qed

lemma effectiveMax_twoPlayers: "effectiveMax (options twoPlayers) = Num 25000"
  by (simp add: twoPlayers_def holdemCalculator_def withDefaults_def noOptions_def
        effectiveMax_def)

section \<open>A forced calculation that does not return\<close>

text \<open>
  A calculation that proceeds need not return a result. The completions accumulate in the
  hands: in the forced Omaha calculation of \<open>omahaIncomplete\<close> the first hand holds
  four cards in the first scenario and five in the second, which the Omaha evaluator
  refuses.
\<close>

lemma forced_omaha_fails_in_second_scenario:
  "newCalculator omahaIncomplete [0, 1] 2 [] OMAHA (noOptions\<lparr> forceExhaustive := Some True \<rparr>)
     = Inr omahaForced
   \<and> calculate omahaForced omahaIncomplete = Inl (OmahaHoleCards 5)"
proof -
  have new: "newCalculator omahaIncomplete [0, 1] 2 [] OMAHA
      (noOptions\<lparr> forceExhaustive := Some True \<rparr>) = Inr omahaForced"
    by code_simp
  have es: "case evaluateScenarios omahaForced omahaIncomplete of
              Inl e \<Rightarrow> e = OmahaHoleCards 5 | Inr r \<Rightarrow> False"
    by code_simp
  have "shouldUseExhaustive omahaForced omahaIncomplete"
    by (simp add: shouldUseExhaustive_def omahaForced_def withDefaults_def noOptions_def)
  with es have "calculate omahaForced omahaIncomplete = Inl (OmahaHoleCards 5)"
    by (auto simp: calculate_def split: sum.splits)
  with new show ?thesis by (intro conjI)
qed

section \<open>The overflow error\<close>

text \<open>
  Claim C7 says that the exhaustive calculator fails with the overflow error exactly when
  the estimated count exceeds the configured ceiling \<^verbatim>\<open>maxExhaustiveCombinations\<close>
  and the force flag is not set. The code compares with
  \<^verbatim>\<open>maxExhaustiveCombinations || 25000\<close>, so a configured ceiling of 0 is replaced by
  25000: with the ceiling 0, no force flag and a complete scenario, whose estimated count
  is 1, the calculation does not fail but returns its result.
\<close>

theorem ceiling_zero_counts_as_unset:
  "newCalculator pairVsAceHigh [0, 1] 2 [] TEXAS_HOLDEM
       (noOptions\<lparr> maxExhaustiveCombinations := Some (Num 0) \<rparr>) = Inr ceilingZero
   \<and> maxExhaustiveCombinations (options ceilingZero) = Some (Num 0)
   \<and> forceExhaustive (options ceilingZero) = Some False
   \<and> estimateCombinations ceilingZero pairVsAceHigh = Num 1
   \<and> (case calculate ceilingZero pairVsAceHigh of
         Inl e \<Rightarrow> False
       | Inr (r, st', t) \<Rightarrow> totalHands r = 1 \<and> isExact r)"
proof -
  have a: "newCalculator pairVsAceHigh [0, 1] 2 [] TEXAS_HOLDEM
       (noOptions\<lparr> maxExhaustiveCombinations := Some (Num 0) \<rparr>) = Inr ceilingZero"
    by code_simp
  have b: "maxExhaustiveCombinations (options ceilingZero) = Some (Num 0)"
    "forceExhaustive (options ceilingZero) = Some False"
    by (simp_all add: ceilingZero_def holdemCalculator_def withDefaults_def noOptions_def)
  have c: "estimateCombinations ceilingZero pairVsAceHigh = Num 1" by code_simp
  have d: "case calculate ceilingZero pairVsAceHigh of
         Inl e \<Rightarrow> False
       | Inr (r, st', t) \<Rightarrow> totalHands r = 1 \<and> isExact r"
    by code_simp
  from a b c d show ?thesis by (intro conjI)
qed

text \<open>
  Claim C7 as amended: the effective ceiling is \<^verbatim>\<open>maxExhaustiveCombinations\<close> when it
  is configured and neither 0 nor \<^verbatim>\<open>NaN\<close>, and 25000 otherwise. The calculator fails
  with the overflow error exactly when the force flag is not set and the comparison
  \<^verbatim>\<open>totalCombinations <= ceiling\<close> of the estimated count with the effective ceiling
  is false, and the error then carries the estimated count, the double that
  \<^verbatim>\<open>estimateCombinations\<close> computes. So with the force flag set it never fails with
  that error, whatever the count; and every result it returns has \<^verbatim>\<open>isExact = true\<close>.
  Whether the calculation that proceeds returns is not part of the statement.
\<close>

theorem overflow_error_iff_over_effective_ceiling:
  "((\<exists>n. calculate calc st = Inl (TooManyCombinations n))
      \<longleftrightarrow> forceExhaustive (options calc) \<noteq> Some True
          \<and> \<not> numLessEq (estimateCombinations calc st) (effectiveMax (options calc)))
   \<and> (forceExhaustive (options calc) \<noteq> Some True
          \<and> \<not> numLessEq (estimateCombinations calc st) (effectiveMax (options calc))
        \<longrightarrow> calculate calc st = Inl (TooManyCombinations (estimateCombinations calc st)))
   \<and> (\<forall>r st' t. calculate calc st = Inr (r, st', t) \<longrightarrow> isExact r)"
proof (intro conjI)
  show "(\<exists>n. calculate calc st = Inl (TooManyCombinations n))
      \<longleftrightarrow> forceExhaustive (options calc) \<noteq> Some True
          \<and> \<not> numLessEq (estimateCombinations calc st) (effectiveMax (options calc))"
  proof (cases "shouldUseExhaustive calc st")
    case True
    then have "\<And>n. calculate calc st \<noteq> Inl (TooManyCombinations n)"
      by (auto simp: calculate_def split: sum.splits dest: evaluateScenarios_error)
    with True show ?thesis by (auto simp: shouldUseExhaustive_def)
  next
    case False
    then show ?thesis by (auto simp: calculate_def shouldUseExhaustive_def)
  qed
  show "forceExhaustive (options calc) \<noteq> Some True
          \<and> \<not> numLessEq (estimateCombinations calc st) (effectiveMax (options calc))
        \<longrightarrow> calculate calc st = Inl (TooManyCombinations (estimateCombinations calc st))"
    by (auto simp: calculate_def shouldUseExhaustive_def)
  show "\<forall>r st' t. calculate calc st = Inr (r, st', t) \<longrightarrow> isExact r"
    by (auto simp: calculate_def split: if_splits sum.splits)
qed

text \<open>
  Two hands before the flop: 1712304 combinations, above the default ceiling 25000.
  Without the force flag the calculation fails with the overflow error that carries this
  count; with the force flag it does not fail with an overflow error. With the force flag
  on the complete board of \<open>pairVsAceHigh\<close> it returns an exact result.
\<close>

theorem overflow_error_iff_over_effective_ceiling_witness:
  "forceExhaustive (options twoPlayers) \<noteq> Some True
   \<and> estimateCombinations twoPlayers preflop = Num 1712304
   \<and> effectiveMax (options twoPlayers) = Num 25000
   \<and> \<not> numLessEq (estimateCombinations twoPlayers preflop) (effectiveMax (options twoPlayers))
   \<and> calculate twoPlayers preflop = Inl (TooManyCombinations (Num 1712304))
   \<and> forceExhaustive (options forced) = Some True
   \<and> (\<forall>n. calculate forced preflop \<noteq> Inl (TooManyCombinations n))
   \<and> (\<exists>r st' t. calculate forced pairVsAceHigh = Inr (r, st', t) \<and> isExact r)"
proof -
  have u: "forceExhaustive (options twoPlayers) \<noteq> Some True"
    by (simp add: twoPlayers_def holdemCalculator_def withDefaults_def noOptions_def)
  have f: "forceExhaustive (options forced) = Some True"
    by (simp add: forced_def holdemCalculator_def withDefaults_def noOptions_def)
  have gt: "\<not> numLessEq (estimateCombinations twoPlayers preflop)
               (effectiveMax (options twoPlayers))"
    by (simp add: estimate_preflop effectiveMax_twoPlayers numLessEq_Num)
  from overflow_error_iff_over_effective_ceiling[of twoPlayers preflop] u gt
  have "calculate twoPlayers preflop
          = Inl (TooManyCombinations (estimateCombinations twoPlayers preflop))"
    by blast
  then have 1: "calculate twoPlayers preflop = Inl (TooManyCombinations (Num 1712304))"
    by (simp only: estimate_preflop)
  from overflow_error_iff_over_effective_ceiling[of forced preflop] f
  have 2: "\<forall>n. calculate forced preflop \<noteq> Inl (TooManyCombinations n)" by blast
  have "case calculate forced pairVsAceHigh of
          Inl e \<Rightarrow> False | Inr (r, st', t) \<Rightarrow> totalHands r = 1"
    by code_simp
  then obtain r st' t where ret: "calculate forced pairVsAceHigh = Inr (r, st', t)"
    by (auto split: sum.splits)
  with overflow_error_iff_over_effective_ceiling[of forced pairVsAceHigh]
  have 3: "\<exists>r st' t. calculate forced pairVsAceHigh = Inr (r, st', t) \<and> isExact r" by blast
  from u estimate_preflop effectiveMax_twoPlayers gt 1 f 2 3 show ?thesis by (intro conjI)
qed

section \<open>The validation of the constructor\<close>

lemma areCardsEqual_iff: "areCardsEqual a b \<longleftrightarrow> a = b"
  by (cases a, cases b) (simp add: areCardsEqual_def)

lemma isCardInArray_iff: "isCardInArray c cards \<longleftrightarrow> c \<in> set cards"
  by (auto simp: isCardInArray_def areCardsEqual_iff list_ex_iff)

lemma concat_shared_not_distinct:
  assumes "i < j" "j < length xs" "x \<in> set (xs ! i)" "x \<in> set (xs ! j)"
  shows "\<not> distinct (concat xs)"
proof
  assume d: "distinct (concat xs)"
  from assms(2) have split: "xs = take j xs @ xs ! j # drop (Suc j) xs"
    by (rule id_take_nth_drop)
  from assms(1,2) have "xs ! i \<in> set (take j xs)"
    by (metis length_take min.absorb2 nth_mem nth_take order_less_imp_le)
  with assms(3) have "x \<in> set (concat (take j xs))" by auto
  moreover from d split have "distinct (concat (take j xs @ xs ! j # drop (Suc j) xs))" by simp
  then have "set (concat (take j xs)) \<inter> set (xs ! j) = {}" by auto
  ultimately show False using assms(4) by auto
qed

lemma in_some_hand_iff: "list_ex (isCardInArray c) hcs \<longleftrightarrow> c \<in> set (concat hcs)"
  by (auto simp: list_ex_iff isCardInArray_iff)

lemma count_list_ge1: "c \<in> set xs \<Longrightarrow> 1 \<le> count_list xs c"
  using count_list_0_iff[of xs c] by (cases "count_list xs c") auto

lemma validateHandCards_Inr:
  "validateHandCards seen cs = Inr r \<Longrightarrow> distinct seen \<Longrightarrow> distinct (seen @ cs)"
proof (induction cs arbitrary: seen)
  case Nil
  then show ?case by simp
next
  case (Cons c cs)
  from Cons.prems(1) have nin: "c \<notin> set seen" and r: "validateHandCards (seen @ [c]) cs = Inr r"
    by (auto simp: isCardInArray_iff split: if_splits)
  from Cons.IH[OF r] nin Cons.prems(2) show ?case by simp
qed

lemma validateHandCards_Inl:
  "validateHandCards seen cs = Inl e \<Longrightarrow>
   \<exists>c. compositionErrorCard e = Some c \<and> 2 \<le> count_list (seen @ cs) c"
proof (induction cs arbitrary: seen)
  case Nil
  then show ?case by simp
next
  case (Cons c cs)
  show ?case
  proof (cases "c \<in> set seen")
    case True
    with Cons.prems have "e = CardInMultipleHands c" by (simp add: isCardInArray_iff)
    moreover from True have "1 \<le> count_list seen c" by (rule count_list_ge1)
    ultimately show ?thesis by simp
  next
    case False
    with Cons.prems have "validateHandCards (seen @ [c]) cs = Inl e" by (simp add: isCardInArray_iff)
    from Cons.IH[OF this] show ?thesis by simp
  qed
qed

lemma validateDeadCards_Inr:
  "validateDeadCards hcs seen cs = Inr r \<Longrightarrow>
   r = seen @ cs \<and> set cs \<inter> set (concat hcs) = {} \<and> (distinct seen \<longrightarrow> distinct (seen @ cs))"
proof (induction cs arbitrary: seen)
  case Nil
  then show ?case by simp
next
  case (Cons c cs)
  from Cons.prems have nin: "c \<notin> set seen" "c \<notin> set (concat hcs)"
    and r: "validateDeadCards hcs (seen @ [c]) cs = Inr r"
    by (auto simp: isCardInArray_iff in_some_hand_iff split: if_splits)
  from Cons.IH[OF r] nin show ?case by auto
qed

lemma validateDeadCards_Inl:
  "validateDeadCards hcs seen cs = Inl e \<Longrightarrow>
   \<exists>c. compositionErrorCard e = Some c \<and> 2 \<le> count_list (seen @ cs @ concat hcs) c"
proof (induction cs arbitrary: seen)
  case Nil
  then show ?case by simp
next
  case (Cons c cs)
  show ?case
  proof (cases "c \<in> set (concat hcs)")
    case True
    with Cons.prems have "e = DeadCardInHand c" by (simp add: in_some_hand_iff)
    moreover from True have "1 \<le> count_list (concat hcs) c" by (rule count_list_ge1)
    ultimately show ?thesis by simp
  next
    case False
    note nh = this
    show ?thesis
    proof (cases "c \<in> set seen")
      case True
      with nh Cons.prems have "e = DuplicateDeadCard c"
        by (simp add: in_some_hand_iff isCardInArray_iff)
      moreover from True have "1 \<le> count_list seen c" by (rule count_list_ge1)
      ultimately show ?thesis by simp
    next
      case False
      with nh Cons.prems have "validateDeadCards hcs (seen @ [c]) cs = Inl e"
        by (simp add: in_some_hand_iff isCardInArray_iff)
      from Cons.IH[OF this] show ?thesis by simp
    qed
  qed
qed

lemma validateBoardCards_Inr:
  "validateBoardCards dead hcs seen cs = Inr r \<Longrightarrow>
   r = seen @ cs \<and> set cs \<inter> set dead = {} \<and> set cs \<inter> set (concat hcs) = {}
   \<and> (distinct seen \<longrightarrow> distinct (seen @ cs))"
proof (induction cs arbitrary: seen)
  case Nil
  then show ?case by simp
next
  case (Cons c cs)
  from Cons.prems have nin: "c \<notin> set seen" "c \<notin> set (concat hcs)" "c \<notin> set dead"
    and r: "validateBoardCards dead hcs (seen @ [c]) cs = Inr r"
    by (auto simp: isCardInArray_iff in_some_hand_iff split: if_splits)
  from Cons.IH[OF r] nin show ?case by auto
qed

lemma validateBoardCards_Inl:
  "validateBoardCards dead hcs seen cs = Inl e \<Longrightarrow>
   \<exists>c. compositionErrorCard e = Some c \<and> 2 \<le> count_list (seen @ cs @ dead @ concat hcs) c"
proof (induction cs arbitrary: seen)
  case Nil
  then show ?case by simp
next
  case (Cons c cs)
  show ?case
  proof (cases "c \<in> set dead")
    case True
    with Cons.prems have "e = BoardCardIsDead c" by (simp add: isCardInArray_iff)
    moreover from True have "1 \<le> count_list dead c" by (rule count_list_ge1)
    ultimately show ?thesis by simp
  next
    case False
    note nd = this
    show ?thesis
    proof (cases "c \<in> set (concat hcs)")
      case True
      with nd Cons.prems have "e = BoardCardInHand c"
        by (simp add: in_some_hand_iff isCardInArray_iff)
      moreover from True have "1 \<le> count_list (concat hcs) c" by (rule count_list_ge1)
      ultimately show ?thesis by simp
    next
      case False
      note nh = this
      show ?thesis
      proof (cases "c \<in> set seen")
        case True
        with nd nh Cons.prems have "e = DuplicateBoardCard c"
          by (simp add: in_some_hand_iff isCardInArray_iff)
        moreover from True have "1 \<le> count_list seen c" by (rule count_list_ge1)
        ultimately show ?thesis by simp
      next
        case False
        with nd nh Cons.prems have "validateBoardCards dead hcs (seen @ [c]) cs = Inl e"
          by (simp add: in_some_hand_iff isCardInArray_iff)
        from Cons.IH[OF this] show ?thesis by simp
      qed
    qed
  qed
qed

lemma validateHands_Inr:
  assumes "validateHands hcs bcs dead = Inr u"
  shows "distinct (bcs @ dead @ concat hcs)"
proof -
  from assms obtain seen1 seen2 r where
    v1: "validateBoardCards dead hcs [] bcs = Inr seen1"
    and v2: "validateDeadCards hcs seen1 dead = Inr seen2"
    and v3: "validateHandCards seen2 (concat hcs) = Inr r"
    by (auto simp: validateHands_def split: sum.splits)
  from validateBoardCards_Inr[OF v1] have s1: "seen1 = bcs" "distinct seen1" by auto
  from validateDeadCards_Inr[OF v2] s1 have s2: "seen2 = bcs @ dead" "distinct seen2" by auto
  from validateHandCards_Inr[OF v3 s2(2)] s2(1) show ?thesis by simp
qed

lemma validateHands_Inl:
  assumes "validateHands hcs bcs dead = Inl e"
  shows "\<exists>c. compositionErrorCard e = Some c \<and> 2 \<le> count_list (bcs @ dead @ concat hcs) c"
proof (cases "validateBoardCards dead hcs [] bcs")
  case (Inl e1)
  with assms have "e1 = e" by (simp add: validateHands_def)
  with validateBoardCards_Inl[OF Inl] show ?thesis by simp
next
  case (Inr seen1)
  note v1 = this
  from validateBoardCards_Inr[OF v1] have s1: "seen1 = bcs" by simp
  show ?thesis
  proof (cases "validateDeadCards hcs seen1 dead")
    case (Inl e2)
    with assms v1 have "e2 = e" by (simp add: validateHands_def)
    with validateDeadCards_Inl[OF Inl] s1 show ?thesis by simp
  next
    case (Inr seen2)
    note v2 = this
    from validateDeadCards_Inr[OF v2] s1 have s2: "seen2 = bcs @ dead" by simp
    show ?thesis
    proof (cases "validateHandCards seen2 (concat hcs)")
      case (Inl e3)
      with assms v1 v2 have "e3 = e" by (simp add: validateHands_def)
      with validateHandCards_Inl[OF Inl] s2 show ?thesis by simp
    next
      case (Inr r)
      with assms v1 v2 show ?thesis by (simp add: validateHands_def)
    qed
  qed
qed

text \<open>
  Claim C8 says that every input with a card in two places fails in the constructor with
  a composition error that names the card. The constructor looks the evaluator of the
  variant up before it validates, and only Texas Hold'em and Omaha have one: for seven
  card stud, two hands that both hold \<^verbatim>\<open>As\<close> fail with the error of the missing
  evaluator, which names no card.
\<close>

theorem duplicate_card_with_unregistered_variant:
  "sharedAce 0 = [Card ACE SPADES, Card KING SPADES]
   \<and> sharedAce 1 = [Card ACE SPADES, Card QUEEN HEARTS]
   \<and> newCalculator sharedAce [0, 1] 2 [] SEVEN_CARD_STUD noOptions = Inl NoEvaluatorRegistered
   \<and> compositionErrorCard NoEvaluatorRegistered = None"
  by (simp add: sharedAce_def objects_def newCalculator_def)

text \<open>
  Claim C8 as amended: for a variant with a registered evaluator, whenever a card is in two
  hands, in a hand and on the board, in a hand and among the dead cards, or on the board
  and among the dead cards, the constructor fails with a composition error, and the card
  the error names occurs at least twice among the cards of the board, the dead cards and
  the hands. The constructor evaluates no hand and writes to no object: it is a function
  of the store.
\<close>

theorem duplicate_card_fails_construction:
  assumes reg: "getEvaluator gameVariant = Inr ev"
    and dup: "(\<exists>i j. i < j \<and> j < length hs \<and> set (st (hs ! i)) \<inter> set (st (hs ! j)) \<noteq> {})
        \<or> (\<exists>h \<in> set hs. set (st h) \<inter> set (st b) \<noteq> {})
        \<or> (\<exists>h \<in> set hs. set (st h) \<inter> set dead \<noteq> {})
        \<or> set (st b) \<inter> set dead \<noteq> {}"
  shows "\<exists>e c. newCalculator st hs b dead gameVariant opts = Inl e
           \<and> compositionErrorCard e = Some c
           \<and> 2 \<le> count_list (st b @ dead @ concat (map st hs)) c"
proof -
  have nd: "\<not> distinct (st b @ dead @ concat (map st hs))"
  proof
    assume d: "distinct (st b @ dead @ concat (map st hs))"
    then have dc: "distinct (concat (map st hs))" by simp
    from dup show False
    proof (elim disjE exE conjE bexE)
      fix i j assume ij: "i < j" "j < length hs" "set (st (hs ! i)) \<inter> set (st (hs ! j)) \<noteq> {}"
      from ij(3) obtain x where x: "x \<in> set (st (hs ! i))" "x \<in> set (st (hs ! j))" by auto
      from ij(1,2) x have "\<not> distinct (concat (map st hs))"
        by (intro concat_shared_not_distinct[of i j _ x]) auto
      with dc show False by simp
    next
      fix h assume "h \<in> set hs" "set (st h) \<inter> set (st b) \<noteq> {}"
      with d show False by auto
    next
      fix h assume "h \<in> set hs" "set (st h) \<inter> set dead \<noteq> {}"
      with d show False by auto
    next
      assume "set (st b) \<inter> set dead \<noteq> {}"
      with d show False by auto
    qed
  qed
  show ?thesis
  proof (cases "validateHands (map st hs) (st b) dead")
    case (Inl e)
    from validateHands_Inl[OF Inl] reg Inl show ?thesis by (auto simp: newCalculator_def)
  next
    case (Inr u)
    from validateHands_Inr[OF Inr] nd show ?thesis by simp
  qed
qed

text \<open>Texas Hold'em with \<^verbatim>\<open>AsKs\<close> and \<^verbatim>\<open>AsQh\<close>.\<close>

theorem duplicate_card_fails_construction_witness:
  "getEvaluator TEXAS_HOLDEM = Inr HoldemEvaluator
   \<and> set (sharedAce ([0, 1] ! 0)) \<inter> set (sharedAce ([0, 1] ! 1)) \<noteq> {}
   \<and> (\<exists>e c. newCalculator sharedAce [0, 1] 2 [] TEXAS_HOLDEM noOptions = Inl e
         \<and> compositionErrorCard e = Some c
         \<and> 2 \<le> count_list (sharedAce 2 @ [] @ concat (map sharedAce [0, 1])) c)"
proof -
  have r: "getEvaluator TEXAS_HOLDEM = Inr HoldemEvaluator" by simp
  have s: "set (sharedAce ([0, 1] ! 0)) \<inter> set (sharedAce ([0, 1] ! 1)) \<noteq> {}"
    by (simp add: sharedAce_def objects_def)
  then have "\<exists>i j. i < j \<and> j < length [0, 1 :: nat]
      \<and> set (sharedAce ([0, 1] ! i)) \<inter> set (sharedAce ([0, 1] ! j)) \<noteq> {}"
    by (intro exI[of _ 0] exI[of _ 1]) simp
  then have d: "(\<exists>i j. i < j \<and> j < length [0, 1 :: nat]
        \<and> set (sharedAce ([0, 1] ! i)) \<inter> set (sharedAce ([0, 1] ! j)) \<noteq> {})
      \<or> (\<exists>h \<in> set [0, 1]. set (sharedAce h) \<inter> set (sharedAce 2) \<noteq> {})
      \<or> (\<exists>h \<in> set [0, 1]. set (sharedAce h) \<inter> set [] \<noteq> {})
      \<or> set (sharedAce 2) \<inter> set [] \<noteq> {}"
    by (rule disjI1)
  from r s duplicate_card_fails_construction[OF r d, of noOptions] show ?thesis by (intro conjI)
qed

section \<open>What the exhaustive calculator leaves in the objects\<close>

lemma evaluateAndUpdateEquity_Inr:
  assumes "evaluateAndUpdateEquity calc s = Inr s'"
  shows "store s' = store s"
    and "evaluatedScenarios s' =
           evaluatedScenarios s @ [(map (store s) (hands calc), store s (board calc))]"
  using assms by (auto simp: evaluateAndUpdateEquity_def split: sum.splits)

lemma applyCompletions_complete_hands:
  "applyCompletions calc [] hcs bc st = st(board calc := st (board calc) @ bc)"
  by (simp add: applyCompletions_def Let_def)

lemma evaluateBoardCompletions_complete_hands:
  assumes "evaluateBoardCompletions calc [] cur bcs count s = Inr (n, s')"
    and "board calc \<notin> set (hands calc)"
  shows "n = count + length bcs
    \<and> store s' (board calc) = store s (board calc) @ concat bcs
    \<and> evaluatedScenarios s' = evaluatedScenarios s
         @ map (\<lambda>k. (map (store s) (hands calc), store s (board calc) @ concat (take (Suc k) bcs)))
             [0 ..< length bcs]"
  using assms(1)
proof (induction bcs arbitrary: count s)
  case Nil
  then show ?case by simp
next
  case (Cons bc bcs)
  let ?s1 = "s\<lparr> store := applyCompletions calc [] cur bc (store s) \<rparr>"
  from Cons.prems obtain s2 where s2: "evaluateAndUpdateEquity calc ?s1 = Inr s2"
    and rest: "evaluateBoardCompletions calc [] cur bcs (count + 1) s2 = Inr (n, s')"
    by (auto split: sum.splits)
  have st1: "store ?s1 = (store s)(board calc := store s (board calc) @ bc)"
    by (simp add: applyCompletions_complete_hands)
  from assms(2) have hands1: "map (store ?s1) (hands calc) = map (store s) (hands calc)"
    by (auto simp: st1)
  from evaluateAndUpdateEquity_Inr[OF s2] st1 hands1
  have st2: "store s2 = (store s)(board calc := store s (board calc) @ bc)"
    and tr2: "evaluatedScenarios s2 = evaluatedScenarios s
                @ [(map (store s) (hands calc), store s (board calc) @ bc)]"
    by simp_all
  from assms(2) have hands2: "map (store s2) (hands calc) = map (store s) (hands calc)"
    by (auto simp: st2)
  have shift: "[0 ..< Suc (length bcs)] = 0 # map Suc [0 ..< length bcs]"
    by (simp add: upt_conv_Cons map_Suc_upt del: upt_Suc)
  from Cons.IH[OF rest] st2 tr2 hands2 show ?case
    by (simp add: shift comp_def del: upt_Suc)
qed

text \<open>
  Claim C4 says that after every scenario the hands and the board are restored to their
  original cards, so that each scenario is evaluated over the original cards plus its
  completion and the objects of the caller are unchanged when \<^verbatim>\<open>calculate\<close>
  returns. \<^verbatim>\<open>applyCompletions\<close> takes its "original" copies from the objects as they
  are, which hold the completion of the scenario before, and nothing restores them. For
  \<^verbatim>\<open>AsKs\<close> against \<^verbatim>\<open>QhJh\<close> on the turn \<^verbatim>\<open>Ts9s2h8c\<close> the second of the 44
  scenarios is evaluated on a board of six cards, and when \<^verbatim>\<open>calculate\<close> returns
  the board object of the caller holds its four cards followed by all 44 cards of the
  deck.
\<close>

theorem exhaustive_board_accumulates_completions:
  "newCalculator turnBoard [0, 1] 2 [] TEXAS_HOLDEM noOptions = Inr twoPlayers
   \<and> turnBoard 2 = [Card TEN SPADES, Card NINE SPADES, Card TWO HEARTS, Card EIGHT CLUBS]
   \<and> (case calculate twoPlayers turnBoard of
         Inl e \<Rightarrow> False
       | Inr (r, st', t) \<Rightarrow>
           totalHands r = 44
           \<and> st' 2 = [Card TEN SPADES, Card NINE SPADES, Card TWO HEARTS, Card EIGHT CLUBS]
                @ removeCards fullDeck
                    [Card TEN SPADES, Card NINE SPADES, Card TWO HEARTS, Card EIGHT CLUBS,
                     Card ACE SPADES, Card KING SPADES, Card QUEEN HEARTS, Card JACK HEARTS]
           \<and> length (st' 2) = 48
           \<and> t ! 1 = ([[Card ACE SPADES, Card KING SPADES], [Card QUEEN HEARTS, Card JACK HEARTS]],
                      [Card TEN SPADES, Card NINE SPADES, Card TWO HEARTS, Card EIGHT CLUBS,
                       Card TWO SPADES, Card THREE SPADES]))"
proof -
  let ?deck = "createDeckWithoutUsedCards twoPlayers turnBoard"
  let ?s0 = "\<lparr> store = turnBoard, results = createInitialPlayerEquities twoPlayers, evaluatedScenarios = [] \<rparr>"
  have new: "newCalculator turnBoard [0, 1] 2 [] TEXAS_HOLDEM noOptions = Inr twoPlayers" by code_simp
  have ev: "evaluator twoPlayers = HoldemEvaluator" and hs: "hands twoPlayers = [0, 1]"
    and b: "board twoPlayers = 2"
    by (simp_all add: twoPlayers_def holdemCalculator_def)
  have should: "shouldUseExhaustive twoPlayers turnBoard"
    by (simp add: shouldUseExhaustive_def estimate_turnBoard effectiveMax_twoPlayers
          numLessEq_Num)
  have inc: "incompleteHandsOf twoPlayers turnBoard = []" by code_simp
  have need: "cardsNeededForBoard (turnBoard (board twoPlayers)) (getVariant (evaluator twoPlayers)) = Suc 0"
    by code_simp
  have bcs: "boardCompletionsOf twoPlayers turnBoard = map (\<lambda>c. [c]) ?deck"
    by (simp add: boardCompletionsOf_def Let_def need generateCombinations_one)
  have deck: "?deck = removeCards fullDeck
                    [Card TEN SPADES, Card NINE SPADES, Card TWO HEARTS, Card EIGHT CLUBS,
                     Card ACE SPADES, Card KING SPADES, Card QUEEN HEARTS, Card JACK HEARTS]"
    by (simp add: createDeckWithoutUsedCards_def getUsedCards_def twoPlayers_def holdemCalculator_def
          turnBoard_def objects_def)
  have len: "length ?deck = 44" by code_simp
  have first2: "take 2 ?deck = [Card TWO SPADES, Card THREE SPADES]" by code_simp
  have st0: "turnBoard 0 = [Card ACE SPADES, Card KING SPADES]"
    "turnBoard (Suc 0) = [Card QUEEN HEARTS, Card JACK HEARTS]"
    "turnBoard 2 = [Card TEN SPADES, Card NINE SPADES, Card TWO HEARTS, Card EIGHT CLUBS]"
    by (simp_all add: turnBoard_def objects_def)
  have es: "evaluateScenarios twoPlayers turnBoard
      = evaluateBoardCompletions twoPlayers [] [] (map (\<lambda>c. [c]) ?deck) 0 ?s0"
    by (simp add: evaluateScenarios_def Let_def inc need bcs evaluateAllCombinations.simps)
  from evaluateScenarios_holdem[OF ev] obtain n s where r: "evaluateScenarios twoPlayers turnBoard = Inr (n, s)"
    by blast
  with es have "evaluateBoardCompletions twoPlayers [] [] (map (\<lambda>c. [c]) ?deck) 0 ?s0 = Inr (n, s)"
    by simp
  from evaluateBoardCompletions_complete_hands[OF this] hs b
  have n: "n = length ?deck"
    and sb: "store s 2 = turnBoard 2 @ concat (map (\<lambda>c. [c]) ?deck)"
    and tr: "evaluatedScenarios s =
       map (\<lambda>k. (map turnBoard [0, 1], turnBoard 2 @ concat (take (Suc k) (map (\<lambda>c. [c]) ?deck))))
         [0 ..< length ?deck]"
    by simp_all
  have cc: "\<And>xs :: Card list. concat (map (\<lambda>c. [c]) xs) = xs" by (induct_tac xs) simp_all
  have "evaluatedScenarios s ! 1 =
      (map turnBoard [0, 1], turnBoard 2 @ concat (take 2 (map (\<lambda>c. [c]) ?deck)))"
    unfolding tr using nth_map_upt[of 1 "length ?deck" 0] len
    by (simp add: numeral_2_eq_2 del: upt_Suc)
  then have t1: "evaluatedScenarios s ! 1 =
      ([[Card ACE SPADES, Card KING SPADES], [Card QUEEN HEARTS, Card JACK HEARTS]],
       [Card TEN SPADES, Card NINE SPADES, Card TWO HEARTS, Card EIGHT CLUBS,
        Card TWO SPADES, Card THREE SPADES])"
    by (simp add: take_map first2 st0)
  from sb have sb': "store s 2 = turnBoard 2 @ ?deck" by (simp only: cc)
  have calc: "calculate twoPlayers turnBoard = Inr (\<lparr> playerResults = map (finalEquity n) (results s),
                        totalHands = n, isExact = True \<rparr>, store s, evaluatedScenarios s)"
    using should r by (simp add: calculate_def)
  have "totalHands \<lparr> playerResults = map (finalEquity n) (results s),
                        totalHands = n, isExact = True \<rparr> = 44" by (simp add: n len)
  moreover have "store s 2 = [Card TEN SPADES, Card NINE SPADES, Card TWO HEARTS, Card EIGHT CLUBS]
                @ removeCards fullDeck
                    [Card TEN SPADES, Card NINE SPADES, Card TWO HEARTS, Card EIGHT CLUBS,
                     Card ACE SPADES, Card KING SPADES, Card QUEEN HEARTS, Card JACK HEARTS]"
    by (simp only: sb' st0 deck)
  moreover have "length (store s 2) = 48" by (simp add: sb' st0 len)
  ultimately show ?thesis using new st0(3) t1 by (simp only: calc sum.case prod.case simp_thms)
qed

text \<open>
  Claim C6 says that in every scenario the exhaustive calculator evaluates, no card is
  both in a hand's completion and in the board's completion. The completions of the hands
  and of the board are drawn from the same remaining deck, and the conflict test compares
  the completions of the hands only. For \<^verbatim>\<open>AsKs\<close> against the incomplete hand
  \<^verbatim>\<open>Ah\<close> on the turn \<^verbatim>\<open>2s3s4h5c\<close>, the first scenario evaluated gives
  \<^verbatim>\<open>4s\<close> to the second hand and \<^verbatim>\<open>4s\<close> to the board.
\<close>

theorem exhaustive_evaluates_card_in_hand_and_board:
  "newCalculator incompleteHand [0, 1] 2 [] TEXAS_HOLDEM noOptions = Inr twoPlayers
   \<and> (case calculate twoPlayers incompleteHand of
         Inl e \<Rightarrow> False
       | Inr (r, st', t) \<Rightarrow>
           hd t = ([[Card ACE SPADES, Card KING SPADES], [Card ACE HEARTS, Card FOUR SPADES]],
                   [Card TWO SPADES, Card THREE SPADES, Card FOUR HEARTS, Card FIVE CLUBS,
                    Card FOUR SPADES]))"
proof -
  let ?s0 = "\<lparr> store = incompleteHand, results = createInitialPlayerEquities twoPlayers, evaluatedScenarios = [] \<rparr>"
  let ?inc = "[(Suc 0, Suc 0)]"
  let ?hcs = "handCompletionsOf twoPlayers incompleteHand"
  let ?bcs = "boardCompletionsOf twoPlayers incompleteHand"
  let ?c4s = "[Card FOUR SPADES]"
  have new: "newCalculator incompleteHand [0, 1] 2 [] TEXAS_HOLDEM noOptions = Inr twoPlayers" by code_simp
  have ev: "evaluator twoPlayers = HoldemEvaluator" and hs: "hands twoPlayers = [0, Suc 0]"
    and b: "board twoPlayers = 2"
    by (simp_all add: twoPlayers_def holdemCalculator_def)
  have should: "shouldUseExhaustive twoPlayers incompleteHand"
    by (simp add: shouldUseExhaustive_def estimate_incompleteHand effectiveMax_twoPlayers
          numLessEq_Num)
  have inc: "incompleteHandsOf twoPlayers incompleteHand = ?inc" by code_simp
  have hd_h: "hd (?hcs ! 0) = ?c4s" and ne_h: "?hcs ! 0 \<noteq> []" by code_simp+
  have hd_b: "hd ?bcs = ?c4s" and ne_b: "?bcs \<noteq> []" by code_simp+
  from hd_h ne_h obtain comps where comps: "?hcs ! 0 = ?c4s # comps" by (cases "?hcs ! 0") auto
  from hd_b ne_b obtain bcrest where bcrest: "?bcs = ?c4s # bcrest" by (cases ?bcs) auto
  have st0: "incompleteHand 0 = [Card ACE SPADES, Card KING SPADES]" "incompleteHand (Suc 0) = [Card ACE HEARTS]"
    "incompleteHand 2 = [Card TWO SPADES, Card THREE SPADES, Card FOUR HEARTS, Card FIVE CLUBS]"
    by (simp_all add: incompleteHand_def objects_def)
  let ?st1 = "applyCompletions twoPlayers ?inc [?c4s] ?c4s incompleteHand"
  let ?s1 = "?s0\<lparr> store := ?st1 \<rparr>"
  have st1: "?st1 0 = [Card ACE SPADES, Card KING SPADES]"
    "?st1 (Suc 0) = [Card ACE HEARTS, Card FOUR SPADES]"
    "?st1 2 = [Card TWO SPADES, Card THREE SPADES, Card FOUR HEARTS, Card FIVE CLUBS,
               Card FOUR SPADES]"
    by (simp_all add: applyCompletions_def Let_def hs b st0)
  have "5 \<le> length (store ?s1 (board twoPlayers))" by (simp add: b st1)
  from evaluateAndUpdateEquity_holdem[OF ev this]
  obtain s1 where s1: "evaluateAndUpdateEquity twoPlayers ?s1 = Inr s1" "store s1 = ?st1"
    "evaluatedScenarios s1 = [(map ?st1 (hands twoPlayers), ?st1 (board twoPlayers))]"
    by auto
  have "\<exists>n s'. evaluateBoardCompletions twoPlayers ?inc [?c4s] bcrest (0 + 1) s1 = Inr (n, s')
           \<and> length (store s1 (board twoPlayers)) \<le> length (store s' (board twoPlayers))
           \<and> (\<exists>ext. evaluatedScenarios s' = evaluatedScenarios s1 @ ext)"
    by (rule evaluateBoardCompletions_holdem[OF ev]) (simp add: s1(2) b st1)
  then obtain n2 s2 ext2 where s2:
    "evaluateBoardCompletions twoPlayers ?inc [?c4s] bcrest (0 + 1) s1 = Inr (n2, s2)"
    "length (store s1 (board twoPlayers)) \<le> length (store s2 (board twoPlayers))"
    "evaluatedScenarios s2 = evaluatedScenarios s1 @ ext2"
    by blast
  have e1: "evaluateAllCombinations twoPlayers (0 + 1) ?inc ?hcs ?bcs ([[]][0 := ?c4s]) ?s0 = Inr (n2, s2)"
    using s1(1) s2(1) by (simp add: evaluateAllCombinations.simps bcrest)
  have "\<exists>n s'. tryCompletions twoPlayers 0 ?inc ?hcs ?bcs ([[]][0 := ?c4s]) comps (0 + n2) s2
              = Inr (n, s')
           \<and> length (store s2 (board twoPlayers)) \<le> length (store s' (board twoPlayers))
           \<and> (\<exists>ext. evaluatedScenarios s' = evaluatedScenarios s2 @ ext)"
  proof (rule tryCompletions_holdem[OF ev])
    fix bc
    from s2(2) s1(2) show "5 \<le> length (store s2 (board twoPlayers)) + length bc"
      by (simp add: b st1)
  qed
  then obtain n3 s3 ext3 where s3:
    "tryCompletions twoPlayers 0 ?inc ?hcs ?bcs ([[]][0 := ?c4s]) comps (0 + n2) s2 = Inr (n3, s3)"
    "evaluatedScenarios s3 = evaluatedScenarios s2 @ ext3"
    by blast
  have nc: "\<not> hasConflict 0 [[]] ?c4s" by (simp add: hasConflict_def)
  have "tryCompletions twoPlayers 0 ?inc ?hcs ?bcs [[]] (?c4s # comps) 0 ?s0 = Inr (n3, s3)"
    using nc e1 s3(1) by (simp only: tryCompletions.simps if_False sum.case prod.case)
  then have "evaluateAllCombinations twoPlayers 0 ?inc ?hcs ?bcs [[]] ?s0 = Inr (n3, s3)"
    by (simp add: evaluateAllCombinations.simps comps)
  then have es: "evaluateScenarios twoPlayers incompleteHand = Inr (n3, s3)"
    by (simp add: evaluateScenarios_def Let_def inc)
  have "hd (evaluatedScenarios s3) = (map ?st1 (hands twoPlayers), ?st1 (board twoPlayers))"
    by (simp add: s3(2) s2(3) s1(3))
  then have tr: "hd (evaluatedScenarios s3) =
      ([[Card ACE SPADES, Card KING SPADES], [Card ACE HEARTS, Card FOUR SPADES]],
       [Card TWO SPADES, Card THREE SPADES, Card FOUR HEARTS, Card FIVE CLUBS, Card FOUR SPADES])"
    by (simp add: hs b st1)
  have calc: "calculate twoPlayers incompleteHand = Inr (\<lparr> playerResults = map (finalEquity n3) (results s3),
                        totalHands = n3, isExact = True \<rparr>, store s3, evaluatedScenarios s3)"
    using should es by (simp add: calculate_def)
  show ?thesis using new tr by (simp only: calc sum.case prod.case simp_thms)
qed

end
